theory Spec2Isabelle
  imports Complex_Main "HOL-Library.Sublist"
begin

section \<open>JavaScript strings\<close>

text \<open>
  The market-analysis service is TypeScript. A JavaScript string is a sequence of UTF-16
  code units and \<open>.length\<close> counts them. The model reads a string as a \<open>char list\<close>,
  one \<open>char\<close> per code unit, and so covers the texts whose code units are all below 256.
  In that range the white space of \<open>\s\<close> and of \<open>trim()\<close> is TAB, LF, VT, FF, CR, SPACE
  and NBSP.
\<close>

definition is_ws :: "char \<Rightarrow> bool" where
  "is_ws c \<longleftrightarrow> c \<in> set [CHR 0x09, CHR 0x0A, CHR 0x0B, CHR 0x0C, CHR 0x0D, CHR 0x20, CHR 0xA0]"

definition is_digit :: "char \<Rightarrow> bool" where
  "is_digit c \<longleftrightarrow> c \<in> set ''0123456789''"

definition is_alpha :: "char \<Rightarrow> bool" where
  "is_alpha c \<longleftrightarrow> c \<in> set ''abcdefghijklmnopqrstuvwxyzABCDEFGHIJKLMNOPQRSTUVWXYZ''"

definition digit_val :: "char \<Rightarrow> int" where
  "digit_val c = of_char c - 48"

text \<open>\<open>s.trim()\<close>.\<close>

definition trimStart :: "string \<Rightarrow> string" where
  "trimStart s = dropWhile is_ws s"

definition trim :: "string \<Rightarrow> string" where
  "trim s = rev (dropWhile is_ws (rev (dropWhile is_ws s)))"

text \<open>
  \<open>s.toLowerCase()\<close> on code units below 256: the ASCII capitals and the Latin-1
  capitals 0xC0..0xDE (0xD7, the multiplication sign, apart) move up by 32.
\<close>

definition lower_char :: "char \<Rightarrow> char" where
  "lower_char c =
     (let n = (of_char c :: int) in
      if (65 \<le> n \<and> n \<le> 90) \<or> (192 \<le> n \<and> n \<le> 222 \<and> n \<noteq> 215) then char_of (n + 32) else c)"

definition toLowerCase :: "string \<Rightarrow> string" where
  "toLowerCase s = map lower_char s"

text \<open>
  Matching under the regular-expression flag \<open>i\<close> compares canonicalised code units.
  Every pattern of the service under that flag is made of ASCII characters, and no code
  unit from 128 on canonicalises to an ASCII one, so the comparison is ASCII upper-casing.
\<close>

definition canon :: "char \<Rightarrow> char" where
  "canon c = (let n = (of_char c :: int) in if 97 \<le> n \<and> n \<le> 122 then char_of (n - 32) else c)"

text \<open>\<open>starts_with p s\<close>: the literal \<open>p\<close> matches at the start of \<open>s\<close>.\<close>

fun starts_with :: "string \<Rightarrow> string \<Rightarrow> bool" where
  "starts_with [] s = True"
| "starts_with (p # ps) [] = False"
| "starts_with (p # ps) (c # cs) = (p = c \<and> starts_with ps cs)"

definition starts_with_ci :: "string \<Rightarrow> string \<Rightarrow> bool" where
  "starts_with_ci p s = starts_with (map canon p) (map canon s)"

text \<open>\<open>s.includes(p)\<close>.\<close>

fun js_includes :: "string \<Rightarrow> string \<Rightarrow> bool" where
  "js_includes [] p = (p = [])"
| "js_includes (c # cs) p = (starts_with p (c # cs) \<or> js_includes cs p)"

text \<open>
  \<open>s.split(sep)\<close> for a separator that is one character, or a class of single
  characters: \<open>n\<close> separators give \<open>n + 1\<close> pieces, and the empty string gives one
  empty piece.
\<close>

fun split_where :: "(char \<Rightarrow> bool) \<Rightarrow> string \<Rightarrow> string list" where
  "split_where p [] = [[]]"
| "split_where p (c # cs) =
     (if p c then [] # split_where p cs
      else (case split_where p cs of [] \<Rightarrow> [[c]] | w # ws \<Rightarrow> (c # w) # ws))"

definition split_char :: "char \<Rightarrow> string \<Rightarrow> string list" where
  "split_char d s = split_where (\<lambda>c. c = d) s"

text \<open>
  \<open>s.split(/\s+/)\<close>: the pieces between the maximal runs of white space; a run at
  either end leaves an empty piece there. The flag says that the previous character
  belonged to a separator. \<open>acc\<close> is the current piece, reversed.
\<close>

fun split_ws_from :: "bool \<Rightarrow> string \<Rightarrow> string \<Rightarrow> string list" where
  "split_ws_from insep acc [] = [rev acc]"
| "split_ws_from insep acc (c # cs) =
     (if is_ws c then (if insep then split_ws_from True [] cs
                       else rev acc # split_ws_from True [] cs)
      else split_ws_from False (c # acc) cs)"

definition split_ws :: "string \<Rightarrow> string list" where
  "split_ws s = split_ws_from False [] s"

text \<open>
  The first match of a pattern of fixed length \<open>n\<close> recognised by \<open>m\<close> at the start of
  a text: the text before the match and the text after it.
\<close>

fun split_at_match :: "(string \<Rightarrow> bool) \<Rightarrow> nat \<Rightarrow> string \<Rightarrow> (string \<times> string) option" where
  "split_at_match m n [] = None"
| "split_at_match m n (c # cs) =
     (if m (c # cs) then Some ([], drop n (c # cs))
      else map_option (\<lambda>(a, b). (c # a, b)) (split_at_match m n cs))"

text \<open>The number of matches of \<open>/\|/g\<close>.\<close>

definition count_pipes :: "string \<Rightarrow> nat" where
  "count_pipes s = length (filter (\<lambda>c. c = CHR ''|'') s)"

text \<open>
  \<open>s.replace(/^\d+[\.\)]\s*/, '')\<close> and \<open>s.replace(/^\d+\.\s*/, '')\<close>: a leading
  run of digits followed by one of the closing characters, and the white space after it,
  are removed. The run of digits is maximal, since the character after it is no digit.
\<close>

definition strip_numbering :: "string \<Rightarrow> string \<Rightarrow> string" where
  "strip_numbering closers s =
     (let ds = takeWhile is_digit s; r = dropWhile is_digit s in
      case r of [] \<Rightarrow> s
      | c # r' \<Rightarrow> if ds \<noteq> [] \<and> c \<in> set closers then dropWhile is_ws r' else s)"

section \<open>JavaScript numbers read from strings\<close>

text \<open>
  \<open>parseInt(s)\<close> without a radix: leading white space, a sign, a prefix \<open>0x\<close> that
  selects radix 16, then the longest run of digits; no digit gives \<open>NaN\<close>, here
  \<open>None\<close>. The model keeps the exact integer. JavaScript holds it in a double, which is
  the same value up to \<open>2 ^ 53\<close>.
\<close>

definition hex_val :: "char \<Rightarrow> int option" where
  "hex_val c =
     (let n = (of_char c :: int) in
      if 48 \<le> n \<and> n \<le> 57 then Some (n - 48)
      else if 97 \<le> n \<and> n \<le> 102 then Some (n - 87)
      else if 65 \<le> n \<and> n \<le> 70 then Some (n - 55)
      else None)"

definition digits_value :: "int \<Rightarrow> int list \<Rightarrow> int" where
  "digits_value radix ds = foldl (\<lambda>a d. a * radix + d) 0 ds"

definition parseInt :: "string \<Rightarrow> int option" where
  "parseInt input =
     (let s = trimStart input;
          neg = starts_with ''-'' s;
          s1 = (if starts_with ''-'' s \<or> starts_with ''+'' s then tl s else s);
          hex = starts_with ''0x'' s1 \<or> starts_with ''0X'' s1;
          s2 = (if hex then drop 2 s1 else s1);
          z = (if hex then takeWhile (\<lambda>c. hex_val c \<noteq> None) s2 else takeWhile is_digit s2);
          v = (if hex then digits_value 16 (List.map_filter hex_val z)
               else digits_value 10 (map digit_val z))
      in if z = [] then None else Some (if neg then - v else v))"

text \<open>
  The numbers that \<open>parseFloat\<close> returns. A finite value is kept as the exact rational
  that the decimal literal denotes; JavaScript rounds it to the nearest double.
\<close>

datatype jsnum = NaN | PosInfinity | NegInfinity | Finite rat

text \<open>An exponent part \<open>e\<close>, sign, digits; it counts only when a digit follows.\<close>

definition exponent_part :: "string \<Rightarrow> int" where
  "exponent_part s =
     (case s of [] \<Rightarrow> 0
      | c # r \<Rightarrow>
         if c = CHR ''e'' \<or> c = CHR ''E'' then
           (let neg = starts_with ''-'' r;
                r1 = (if starts_with ''-'' r \<or> starts_with ''+'' r then tl r else r);
                ds = takeWhile is_digit r1
            in if ds = [] then 0
               else (if neg then - digits_value 10 (map digit_val ds)
                     else digits_value 10 (map digit_val ds)))
         else 0)"

definition scale10 :: "rat \<Rightarrow> int \<Rightarrow> rat" where
  "scale10 x e = (if 0 \<le> e then x * 10 ^ nat e else x / 10 ^ nat (- e))"

text \<open>
  \<open>parseFloat(s)\<close>: leading white space, then the longest prefix that is a decimal
  literal: a sign, then \<open>Infinity\<close>, or digits with an optional fraction, or a dot
  with digits, and an optional exponent.
\<close>

definition parseFloat :: "string \<Rightarrow> jsnum" where
  "parseFloat input =
     (let s = trimStart input;
          neg = starts_with ''-'' s;
          s1 = (if starts_with ''-'' s \<or> starts_with ''+'' s then tl s else s)
      in if starts_with ''Infinity'' s1 then (if neg then NegInfinity else PosInfinity)
         else
           (let ip = takeWhile is_digit s1;
                r = dropWhile is_digit s1;
                dot = starts_with ''.'' r;
                fp = (if dot then takeWhile is_digit (tl r) else []);
                r2 = (if dot then dropWhile is_digit (tl r) else r);
                mant = of_int (digits_value 10 (map digit_val ip))
                       + of_int (digits_value 10 (map digit_val fp)) / 10 ^ length fp;
                v = scale10 mant (exponent_part (if ip = [] \<and> fp = [] then [] else r2))
            in if ip = [] \<and> fp = [] then NaN
               else Finite (if neg then - v else v)))"

text \<open>\<open>x || 0\<close> on a number: \<open>NaN\<close> and both zeros are falsy.\<close>

definition or_zero :: "jsnum \<Rightarrow> jsnum" where
  "or_zero x = (case x of NaN \<Rightarrow> Finite 0 | _ \<Rightarrow> x)"

section \<open>Data model\<close>

datatype trend = Up | Down | Stable

record TrendData =
  keyword :: string
  volume :: int
  trend :: trend
  changePercentage :: jsnum
  relevanceScore :: int

record source_ref =
  title :: string
  uri :: string

record MarketReport =
  profession :: string
  summary :: string
  topKeywords :: "TrendData list"
  sources :: "source_ref list"
  generatedAt :: string

text \<open>
  What a \<open>throw\<close> or a rejected promise carries: an \<open>Error\<close> built by the service,
  a \<open>TypeError\<close> of the runtime (a property read on \<open>undefined\<close>), or a value
  rejected by the model client, whose \<open>message\<close> may be absent.
\<close>

datatype thrown = Error string | TypeError string | Rejection "string option"

fun message :: "thrown \<Rightarrow> string option" where
  "message (Error m) = Some m"
| "message (TypeError m) = Some m"
| "message (Rejection m) = m"

text \<open>The reply of the generative model: its text and its grounding chunks, both optional.\<close>

record chunk =
  web_title :: "string option"
  web_uri :: "string option"

record response =
  resp_text :: "string option"
  groundingChunks :: "chunk list option"

text \<open>
  One call of \<open>ai.models.generateContent\<close>: the key the client was built with and the
  subject placed in the prompt template. The rest of the prompt, the model name, the search
  tool and the temperature are constants of each variant.
\<close>

record request =
  apiKey :: string
  subject :: string

text \<open>
  The surroundings of one analysis: \<open>process.env.API_KEY\<close>, the model client, the
  successive results of \<open>Math.random()\<close> and the string of
  \<open>new Date().toLocaleString()\<close>.
\<close>

record env =
  API_KEY :: "string option"
  generateContent :: "request \<Rightarrow> thrown + response"
  random :: "nat \<Rightarrow> rat"
  now :: string

text \<open>\<open>Math.random()\<close> returns a number from 0 up to, not including, 1.\<close>

definition unit_source :: "(nat \<Rightarrow> rat) \<Rightarrow> bool" where
  "unit_source rnd \<longleftrightarrow> (\<forall>i. 0 \<le> rnd i \<and> rnd i < 1)"

text \<open>
  \<open>Math.floor(Math.random() * n)\<close> at the \<open>i\<close>-th draw. The model floors the exact
  product, the code the product rounded to a double; both lie from 0 up to \<open>n - 1\<close>.
\<close>

definition random_int :: "(nat \<Rightarrow> rat) \<Rightarrow> nat \<Rightarrow> int \<Rightarrow> int" where
  "random_int rnd i n = \<lfloor>rnd i * of_int n\<rfloor>"

text \<open>The list under construction and the number of draws made so far.\<close>

record pstate =
  keywordList :: "TrendData list"
  draws :: nat

definition start :: pstate where
  "start = \<lparr>keywordList = [], draws = 0\<rparr>"

definition push :: "TrendData \<Rightarrow> pstate \<Rightarrow> pstate" where
  "push k st = st\<lparr>keywordList := keywordList st @ [k]\<rparr>"

section \<open>Control: exceptions, array reads, loops\<close>

text \<open>\<open>xs[i]\<close> is \<open>undefined\<close> out of range; a method call on \<open>undefined\<close> throws.\<close>

definition js_index :: "'a list \<Rightarrow> nat \<Rightarrow> 'a option" where
  "js_index xs i = (if i < length xs then Some (xs ! i) else None)"

definition on_defined :: "'a option \<Rightarrow> ('a \<Rightarrow> thrown + 'b) \<Rightarrow> thrown + 'b" where
  "on_defined v f =
     (case v of None \<Rightarrow> Inl (TypeError ''Cannot read properties of undefined'')
      | Some x \<Rightarrow> f x)"

definition then_do :: "thrown + 'a \<Rightarrow> ('a \<Rightarrow> thrown + 'b) \<Rightarrow> thrown + 'b" where
  "then_do r f = (case r of Inl e \<Rightarrow> Inl e | Inr x \<Rightarrow> f x)"

text \<open>\<open>xs.forEach(f)\<close> with the state that the callback updates; a throw ends the loop.\<close>

fun forEach :: "('s \<Rightarrow> 'a \<Rightarrow> thrown + 's) \<Rightarrow> 'a list \<Rightarrow> 's \<Rightarrow> thrown + 's" where
  "forEach f [] s = Inr s"
| "forEach f (x # xs) s = (case f s x of Inl e \<Rightarrow> Inl e | Inr s' \<Rightarrow> forEach f xs s')"

section \<open>Shared pieces of the pipelines\<close>

text \<open>
  The repository holds the analysis function \<open>getMarketAnalysis\<close> in four variants:
  the variant with the marker \<open>DATA:\<close> and the token salvage (suffix \<open>_data\<close>),
  the variant with the marker \<open>DATA_TABLE:\<close> and the loose re-scan
  (suffix \<open>_table\<close>), a second variant with the marker \<open>DATA_TABLE:\<close>, whose
  fallback reads generic lines (suffix \<open>_generic\<close>), and the lenient variant of
  \<open>geminiService.ts\<close> with the block \<open>KEYWORDS_START\<close> .. \<open>KEYWORDS_END\<close> and the
  curated fallback (suffix \<open>_lenient\<close>).
\<close>

text \<open>\<open>tr.includes('up') ? 'up' : (tr.includes('down') ? 'down' : 'stable')\<close>.\<close>

definition trend_of :: "string \<Rightarrow> trend" where
  "trend_of tr = (if js_includes tr ''up'' then Up else if js_includes tr ''down'' then Down else Stable)"

text \<open>
  \<open>text.match(/SUMMARY:\s*(.*?)(?=END|$)/)\<close> and the trimmed capture, or the
  placeholder: the text after the first \<open>SUMMARY:\<close> up to the first end marker, or to
  the end of the text.
\<close>

definition summary_of ::
    "(string \<Rightarrow> bool) \<Rightarrow> (string \<Rightarrow> bool) \<Rightarrow> string \<Rightarrow> string \<Rightarrow> string" where
  "summary_of m_summary m_end placeholder txt =
     (case split_at_match m_summary 8 txt of None \<Rightarrow> placeholder
      | Some (_, rest) \<Rightarrow>
          (let r = dropWhile is_ws rest in
           trim (case split_at_match m_end 0 r of None \<Rightarrow> r | Some (b, _) \<Rightarrow> b)))"

text \<open>
  \<open>groundingChunks?.map(chunk => ({title: chunk.web?.title || d, uri: chunk.web?.uri || '#'})) || []\<close>;
  an empty title or address is falsy, too.
\<close>

definition or_default :: "string option \<Rightarrow> string \<Rightarrow> string" where
  "or_default v d = (case v of None \<Rightarrow> d | Some s \<Rightarrow> if s = [] then d else s)"

definition sources_of :: "string \<Rightarrow> response \<Rightarrow> source_ref list" where
  "sources_of d resp =
     (case groundingChunks resp of None \<Rightarrow> []
      | Some cs \<Rightarrow> map (\<lambda>c. \<lparr>title = or_default (web_title c) d, uri = or_default (web_uri c) ''#''\<rparr>) cs)"

text \<open>
  \<open>keywordList.sort((a, b) => b.volume - a.volume)\<close>. \<open>Array.prototype.sort\<close> is
  stable, and the comparator, a difference of numbers, is consistent, so the result is
  the one stable arrangement in the order of the comparator, whichever algorithm the
  engine runs. The model computes it by insertion: an element goes before the first
  element that the comparator does not put before it.
\<close>

definition cmp_volume :: "TrendData \<Rightarrow> TrendData \<Rightarrow> int" where
  "cmp_volume a b = volume b - volume a"

fun insert_sorted :: "('a \<Rightarrow> 'a \<Rightarrow> int) \<Rightarrow> 'a \<Rightarrow> 'a list \<Rightarrow> 'a list" where
  "insert_sorted cmp x [] = [x]"
| "insert_sorted cmp x (y # ys) =
     (if cmp x y \<le> 0 then x # y # ys else y # insert_sorted cmp x ys)"

fun js_sort :: "('a \<Rightarrow> 'a \<Rightarrow> int) \<Rightarrow> 'a list \<Rightarrow> 'a list" where
  "js_sort cmp [] = []"
| "js_sort cmp (x # xs) = insert_sorted cmp x (js_sort cmp xs)"

text \<open>The returned object: the list sorted by volume, \<open>.slice(0, 50)\<close>.\<close>

definition assemble ::
    "string \<Rightarrow> string \<Rightarrow> TrendData list \<Rightarrow> source_ref list \<Rightarrow> string \<Rightarrow> MarketReport" where
  "assemble prof summ ks srcs stamp =
     \<lparr>profession = prof, summary = summ, topKeywords = take 50 (js_sort cmp_volume ks),
      sources = srcs, generatedAt = stamp\<rparr>"

text \<open>\<open>!apiKey || apiKey === "undefined" || apiKey.length < 5\<close>.\<close>

definition key_unusable :: "string option \<Rightarrow> bool" where
  "key_unusable k =
     (case k of None \<Rightarrow> True | Some s \<Rightarrow> s = [] \<or> s = ''undefined'' \<or> length s < 5)"

text \<open>The key handed to the client; past the check it is a string.\<close>

definition usable_key :: "string option \<Rightarrow> string" where
  "usable_key k = (case k of None \<Rightarrow> [] | Some s \<Rightarrow> s)"

section \<open>The variant with the marker \<open>DATA_TABLE:\<close> and the loose re-scan\<close>

text \<open>\<open>text.split(/DATA_TABLE:/i)[1]\<close>: the text between the first two markers.\<close>

definition tablePart_of :: "string \<Rightarrow> string option" where
  "tablePart_of txt =
     (case split_at_match (starts_with_ci ''DATA_TABLE:'') 11 txt of None \<Rightarrow> None
      | Some (_, rest) \<Rightarrow>
          Some (case split_at_match (starts_with_ci ''DATA_TABLE:'') 11 rest of
                  None \<Rightarrow> rest | Some (b, _) \<Rightarrow> b))"

text \<open>
  The callback of the structured tier, the row parser: one line of the table. The
  volume draws from \<open>Math.random()\<close> only when the parsed one is not positive.
\<close>

definition parseRow_table :: "(nat \<Rightarrow> rat) \<Rightarrow> pstate \<Rightarrow> string \<Rightarrow> thrown + pstate" where
  "parseRow_table rnd st line =
     (if 2 \<le> count_pipes line then
        (let parts = map trim (split_char CHR ''|'' line) in
         if 3 \<le> length parts then
           on_defined (js_index parts 0) (\<lambda>p0.
           on_defined (js_index parts 1) (\<lambda>p1.
           on_defined (js_index parts 2) (\<lambda>p2.
             (let kw = strip_numbering ''.)'' p0;
                  volStr = filter is_digit (filter (\<lambda>c. c \<noteq> CHR '','') p1);
                  vol = (case parseInt volStr of None \<Rightarrow> 0 | Some v \<Rightarrow> v);
                  tr = toLowerCase p2;
                  ch = or_zero (case js_index parts 3 of
                                  None \<Rightarrow> parseFloat ''undefined''
                                | Some p3 \<Rightarrow>
                                    parseFloat (filter (\<lambda>c. is_digit c \<or> c = CHR ''.'' \<or> c = CHR ''-'')
                                                  (filter (\<lambda>c. c \<noteq> CHR ''%'') p3)))
              in if kw \<noteq> [] \<and> 1 < length kw \<and> \<not> js_includes (toLowerCase kw) ''term''
                      \<and> \<not> js_includes (toLowerCase kw) ''keyword''
                 then Inr (push \<lparr>keyword = kw,
                                  volume = (if 0 < vol then vol else random_int rnd (draws st) 15000 + 500),
                                  trend = trend_of tr,
                                  changePercentage = ch,
                                  relevanceScore = 100 - int (length (keywordList st))\<rparr>
                             (st\<lparr>draws := (if 0 < vol then draws st else Suc (draws st))\<rparr>))
                 else Inr st))))
         else Inr st)
      else Inr st)"

definition structured_table :: "(nat \<Rightarrow> rat) \<Rightarrow> string \<Rightarrow> pstate \<Rightarrow> thrown + pstate" where
  "structured_table rnd txt st =
     (case tablePart_of txt of None \<Rightarrow> Inr st
      | Some tablePart \<Rightarrow>
          if tablePart = [] then Inr st
          else forEach (parseRow_table rnd) (split_char CHR 0x0A (trim tablePart)) st)"

text \<open>The callback of the re-scan: one line of the whole text, split at hyphens and pipes.\<close>

definition fuzzyRow_table :: "(nat \<Rightarrow> rat) \<Rightarrow> pstate \<Rightarrow> string \<Rightarrow> thrown + pstate" where
  "fuzzyRow_table rnd st line =
     (let parts = map trim (split_where (\<lambda>c. c = CHR ''-'' \<or> c = CHR ''|'') line) in
      if 2 \<le> length parts then
        on_defined (js_index parts 0) (\<lambda>p0.
          if 2 < length p0 \<and> length p0 < 50 then
            (let kw = strip_numbering ''.)'' p0 in
             if \<not> js_includes (toLowerCase kw) ''summary'' \<and> \<not> js_includes (toLowerCase kw) ''data''
             then Inr (push \<lparr>keyword = kw,
                              volume = random_int rnd (draws st) 10000 + 1000,
                              trend = Stable,
                              changePercentage = Finite 0,
                              relevanceScore = 50\<rparr>
                         (st\<lparr>draws := Suc (draws st)\<rparr>))
             else Inr st)
          else Inr st)
      else Inr st)"

definition fuzzy_table :: "(nat \<Rightarrow> rat) \<Rightarrow> string \<Rightarrow> pstate \<Rightarrow> thrown + pstate" where
  "fuzzy_table rnd txt st =
     (if length (keywordList st) < 5 then forEach (fuzzyRow_table rnd) (split_char CHR 0x0A txt) st
      else Inr st)"

text \<open>Both tiers, then the check that something was found.\<close>

definition extract_table :: "(nat \<Rightarrow> rat) \<Rightarrow> string \<Rightarrow> thrown + pstate" where
  "extract_table rnd txt =
     then_do (structured_table rnd txt start) (\<lambda>st0.
     then_do (fuzzy_table rnd txt st0) (\<lambda>st1.
       if keywordList st1 = []
       then Inl (Error ''Could not extract market data. The AI response was not in the expected format.'')
       else Inr st1))"

text \<open>The body of the \<open>try\<close> block, from the settled call on.\<close>

definition analyse_table :: "env \<Rightarrow> string \<Rightarrow> thrown + response \<Rightarrow> thrown + MarketReport" where
  "analyse_table e prof res =
     then_do res (\<lambda>resp.
       (let txt = (case resp_text resp of None \<Rightarrow> [] | Some t \<Rightarrow> t) in
        if txt = [] then
          Inl (Error ''The AI returned an empty response. This might be due to content safety filters or an invalid query.'')
        else
          (let srcs = sources_of ''Market Source'' resp;
               summ = summary_of (starts_with_ci ''SUMMARY:'') (starts_with_ci ''DATA_TABLE:'')
                        ''Analysis complete. Trending data provided based on current market patterns.'' txt
           in then_do (extract_table (random e) txt)
                (\<lambda>st. Inr (assemble prof summ (keywordList st) srcs (now e))))))"

text \<open>The \<open>catch\<close> block: what is thrown on to the caller.\<close>

definition catch_table :: "thrown \<Rightarrow> thrown" where
  "catch_table t =
     (let errorMessage = or_default (message t) ''An unexpected error occurred during analysis.'' in
      if js_includes errorMessage ''403''
      then Error ''Access Denied: Please verify your API Key and ensure Google Search Grounding is enabled in your project.''
      else Error errorMessage)"

text \<open>
  The whole function: the calls of \<open>ai.models.generateContent\<close> it makes, in order,
  and the outcome (\<open>Inl\<close>: the promise rejects with that value).
\<close>

definition missing_key_table :: thrown where
  "missing_key_table =
     Error ''API Key is missing. Please ensure 'API_KEY' is correctly set in your Vercel Environment Variables.''"

definition getMarketAnalysis_table :: "env \<Rightarrow> string \<Rightarrow> request list \<times> (thrown + MarketReport)" where
  "getMarketAnalysis_table e prof =
     (if key_unusable (API_KEY e) then ([], Inl missing_key_table)
      else
        (let req = \<lparr>apiKey = usable_key (API_KEY e), subject = prof\<rparr> in
         ([req], case analyse_table e prof (generateContent e req) of
                   Inl t \<Rightarrow> Inl (catch_table t) | Inr r \<Rightarrow> Inr r)))"

section \<open>The variant with the marker \<open>DATA:\<close> and the token salvage\<close>

text \<open>
  \<open>text.split(/DATA:[\s\n]*/i)\<close> and its second piece, or the empty string when
  there is one piece only.
\<close>

definition keywordSection_of :: "string \<Rightarrow> string" where
  "keywordSection_of txt =
     (case split_at_match (starts_with_ci ''DATA:'') 5 txt of None \<Rightarrow> []
      | Some (_, rest) \<Rightarrow>
          (let r = dropWhile is_ws rest in
           case split_at_match (starts_with_ci ''DATA:'') 5 r of None \<Rightarrow> r | Some (b, _) \<Rightarrow> b))"

definition parseRow_data :: "(nat \<Rightarrow> rat) \<Rightarrow> pstate \<Rightarrow> string \<Rightarrow> thrown + pstate" where
  "parseRow_data rnd st line =
     (let parts = map trim (split_char CHR ''|'' line) in
      if 3 \<le> length parts then
        on_defined (js_index parts 0) (\<lambda>p0.
        on_defined (js_index parts 1) (\<lambda>p1.
        on_defined (js_index parts 2) (\<lambda>p2.
          (let kw = strip_numbering ''.'' p0;
               vol = (case parseInt (filter (\<lambda>c. c \<noteq> CHR '','') p1) of None \<Rightarrow> 0 | Some v \<Rightarrow> v);
               tr = toLowerCase p2;
               ch = or_zero (case js_index parts 3 of
                               None \<Rightarrow> parseFloat ''undefined'' | Some p3 \<Rightarrow> parseFloat p3)
           in if kw \<noteq> [] \<and> 1 < length kw
              then Inr (push \<lparr>keyword = kw,
                               volume = (if 0 < vol then vol else random_int rnd (draws st) 15000 + 500),
                               trend = trend_of tr,
                               changePercentage = ch,
                               relevanceScore = 100 - int (length (keywordList st))\<rparr>
                          (st\<lparr>draws := (if 0 < vol then draws st else Suc (draws st))\<rparr>))
              else Inr st))))
      else Inr st)"

definition structured_data :: "(nat \<Rightarrow> rat) \<Rightarrow> string \<Rightarrow> pstate \<Rightarrow> thrown + pstate" where
  "structured_data rnd txt st =
     (let keywordSection = keywordSection_of txt in
      if keywordSection = [] then Inr st
      else forEach (parseRow_data rnd) (split_char CHR 0x0A (trim keywordSection)) st)"

text \<open>
  The fail-safe: \<open>text.split(/\s+/).filter(w => w.length > 5).slice(0, 10)\<close>, each word
  with \<open>w.replace(/[^a-zA-Z ]/g, "")\<close> as its keyword.
\<close>

definition salvage_words :: "string \<Rightarrow> string list" where
  "salvage_words txt = take 10 (filter (\<lambda>w. 5 < length w) (split_ws txt))"

definition salvage_record :: "string \<Rightarrow> TrendData" where
  "salvage_record w =
     \<lparr>keyword = filter (\<lambda>c. is_alpha c \<or> c = CHR '' '') w, volume = 5000, trend = Stable,
      changePercentage = Finite 0, relevanceScore = 50\<rparr>"

definition salvage_data :: "string \<Rightarrow> pstate \<Rightarrow> thrown + pstate" where
  "salvage_data txt st =
     (if keywordList st = [] then
        (let words = salvage_words txt in
         if words \<noteq> [] then forEach (\<lambda>s w. Inr (push (salvage_record w) s)) words st
         else Inl (Error ''Could not extract structured data from the analysis. Please try a simpler search term.''))
      else Inr st)"

definition extract_data :: "(nat \<Rightarrow> rat) \<Rightarrow> string \<Rightarrow> thrown + pstate" where
  "extract_data rnd txt = then_do (structured_data rnd txt start) (salvage_data txt)"

definition analyse_data :: "env \<Rightarrow> string \<Rightarrow> thrown + response \<Rightarrow> thrown + MarketReport" where
  "analyse_data e prof res =
     then_do res (\<lambda>resp.
       (let txt = (case resp_text resp of None \<Rightarrow> [] | Some t \<Rightarrow> t) in
        if txt = [] then
          Inl (Error ''The AI returned an empty response. This can happen if the topic is sensitive or unsupported.'')
        else
          (let srcs = sources_of ''Market Reference'' resp;
               summ = summary_of (starts_with ''SUMMARY:'') (starts_with ''DATA:'')
                        ''Market analysis complete. Review the trending data below.'' txt
           in then_do (extract_data (random e) txt)
                (\<lambda>st. Inr (assemble prof summ (keywordList st) srcs (now e))))))"

definition catch_data :: "thrown \<Rightarrow> thrown" where
  "catch_data t =
     (if (case message t of None \<Rightarrow> False | Some m \<Rightarrow> js_includes m ''403'')
      then Error ''API Key permissions error. Ensure your key is from a paid project or has the correct model access.''
      else if (case message t of None \<Rightarrow> False | Some m \<Rightarrow> js_includes m ''429'')
      then Error ''Too many requests. Please wait a moment and try again.''
      else Error (or_default (message t) ''An unexpected error occurred during market analysis.''))"

definition missing_key_data :: thrown where
  "missing_key_data =
     Error ''API Key is missing. Please ensure you have added 'API_KEY' to your Vercel Environment Variables.''"

definition getMarketAnalysis_data :: "env \<Rightarrow> string \<Rightarrow> request list \<times> (thrown + MarketReport)" where
  "getMarketAnalysis_data e prof =
     (if key_unusable (API_KEY e) then ([], Inl missing_key_data)
      else
        (let req = \<lparr>apiKey = usable_key (API_KEY e), subject = prof\<rparr> in
         ([req], case analyse_data e prof (generateContent e req) of
                   Inl t \<Rightarrow> Inl (catch_data t) | Inr r \<Rightarrow> Inr r)))"

section \<open>The lenient variant with the curated fallback\<close>

text \<open>
  \<open>text.match(/KEYWORDS_START\s*([\s\S]*?)\s*KEYWORDS_END/)\<close> and its capture: the
  text from the first \<open>KEYWORDS_START\<close>, white space skipped, to the first
  \<open>KEYWORDS_END\<close> after it, without the white space before that.
\<close>

definition keywordBlock_of :: "string \<Rightarrow> string option" where
  "keywordBlock_of txt =
     (case split_at_match (starts_with ''KEYWORDS_START'') 14 txt of None \<Rightarrow> None
      | Some (_, rest) \<Rightarrow>
          (case split_at_match (starts_with ''KEYWORDS_END'') 12 (dropWhile is_ws rest) of
             None \<Rightarrow> None
           | Some (b, _) \<Rightarrow> Some (rev (dropWhile is_ws (rev b)))))"

text \<open>
  The row parser of this variant. The volume draws only when \<open>parseInt\<close> gives
  \<open>NaN\<close> or zero; the relevance always draws, after the volume.
\<close>

definition parseRow_lenient :: "(nat \<Rightarrow> rat) \<Rightarrow> pstate \<Rightarrow> string \<Rightarrow> thrown + pstate" where
  "parseRow_lenient rnd st line =
     (let parts = split_char CHR ''|'' line in
      if 3 \<le> length parts \<and> \<not> js_includes line ''Keyword|Volume'' then
        on_defined (js_index parts 1) (\<lambda>p1.
          (let volumeStr = filter is_digit p1;
               changeStr = (case js_index parts 3 of None \<Rightarrow> ''0''
                            | Some p3 \<Rightarrow>
                                (let c = filter (\<lambda>c. is_digit c \<or> c = CHR ''.'' \<or> c = CHR ''-'') p3
                                 in if c = [] then ''0'' else c))
           in on_defined (js_index parts 0) (\<lambda>p0.
              (let parsed = (case parseInt volumeStr of None \<Rightarrow> 0 | Some v \<Rightarrow> v);
                   d = (if parsed \<noteq> 0 then draws st else Suc (draws st))
               in on_defined (js_index parts 2) (\<lambda>p2.
                    Inr (push \<lparr>keyword = trim p0,
                                volume = (if parsed \<noteq> 0 then parsed
                                          else random_int rnd (draws st) 50000 + 1000),
                                trend = trend_of (toLowerCase p2),
                                changePercentage = or_zero (parseFloat changeStr),
                                relevanceScore = random_int rnd d 30 + 70\<rparr>
                           (st\<lparr>draws := Suc d\<rparr>)))))))
      else Inr st)"

definition structured_lenient :: "(nat \<Rightarrow> rat) \<Rightarrow> string \<Rightarrow> pstate \<Rightarrow> thrown + pstate" where
  "structured_lenient rnd txt st =
     (case keywordBlock_of txt of None \<Rightarrow> Inr st
      | Some block \<Rightarrow> forEach (parseRow_lenient rnd) (split_char CHR 0x0A (trim block)) st)"

definition fallbackWords :: "string list" where
  "fallbackWords = [''Market growth'', ''Digital transformation'', ''Customer experience'',
                    ''Eco-friendly solutions'', ''Price optimization'']"

definition fallback_record :: "string \<Rightarrow> TrendData" where
  "fallback_record w =
     \<lparr>keyword = w, volume = 12000, trend = Up, changePercentage = Finite 15, relevanceScore = 85\<rparr>"

text \<open>\<open>if (!keywordList.find(k => k.keyword === w)) keywordList.push(...)\<close>.\<close>

definition fallbackWord_lenient :: "pstate \<Rightarrow> string \<Rightarrow> thrown + pstate" where
  "fallbackWord_lenient st w =
     (if find (\<lambda>k. keyword k = w) (keywordList st) = None then Inr (push (fallback_record w) st)
      else Inr st)"

definition curated_lenient :: "pstate \<Rightarrow> thrown + pstate" where
  "curated_lenient st =
     (if length (keywordList st) < 5 then forEach fallbackWord_lenient fallbackWords st else Inr st)"

definition extract_lenient :: "(nat \<Rightarrow> rat) \<Rightarrow> string \<Rightarrow> thrown + pstate" where
  "extract_lenient rnd txt = then_do (structured_lenient rnd txt start) curated_lenient"

definition analyse_lenient :: "env \<Rightarrow> string \<Rightarrow> thrown + response \<Rightarrow> thrown + MarketReport" where
  "analyse_lenient e prof res =
     then_do res (\<lambda>resp.
       (let txt = (case resp_text resp of None \<Rightarrow> [] | Some t \<Rightarrow> t);
            srcs = sources_of ''Source'' resp;
            summ = summary_of (starts_with ''SUMMARY:'') (starts_with ''KEYWORDS_START'')
                     ''Analysis complete. View the data below.'' txt
        in then_do (extract_lenient (random e) txt)
             (\<lambda>st. Inr (assemble prof summ (keywordList st) srcs (now e)))))"

text \<open>
  No check of the key: the client is built with \<open>process.env.API_KEY || ''\<close> and
  called, and the \<open>catch\<close> block throws on what it caught.
\<close>

definition getMarketAnalysis_lenient :: "env \<Rightarrow> string \<Rightarrow> request list \<times> (thrown + MarketReport)" where
  "getMarketAnalysis_lenient e prof =
     (let req = \<lparr>apiKey = usable_key (API_KEY e), subject = prof\<rparr> in
      ([req], analyse_lenient e prof (generateContent e req)))"

section \<open>The second variant with the marker \<open>DATA_TABLE:\<close>, with the generic-line fallback\<close>

text \<open>
  The variant of \<open>part_000\<close> from line 251 on (suffix \<open>_generic\<close>). Its structured
  tier is the one of the first \<open>DATA_TABLE:\<close> variant with another range for the drawn
  volume; its fallback runs only on an empty list.
\<close>

definition parseRow_generic :: "(nat \<Rightarrow> rat) \<Rightarrow> pstate \<Rightarrow> string \<Rightarrow> thrown + pstate" where
  "parseRow_generic rnd st line =
     (if 2 \<le> count_pipes line then
        (let parts = map trim (split_char CHR ''|'' line) in
         if 3 \<le> length parts then
           on_defined (js_index parts 0) (\<lambda>p0.
           on_defined (js_index parts 1) (\<lambda>p1.
           on_defined (js_index parts 2) (\<lambda>p2.
             (let kw = strip_numbering ''.)'' p0;
                  volStr = filter is_digit (filter (\<lambda>c. c \<noteq> CHR '','') p1);
                  vol = (case parseInt volStr of None \<Rightarrow> 0 | Some v \<Rightarrow> v);
                  tr = toLowerCase p2;
                  ch = or_zero (case js_index parts 3 of
                                  None \<Rightarrow> parseFloat ''undefined''
                                | Some p3 \<Rightarrow>
                                    parseFloat (filter (\<lambda>c. is_digit c \<or> c = CHR ''.'' \<or> c = CHR ''-'')
                                                  (filter (\<lambda>c. c \<noteq> CHR ''%'') p3)))
              in if kw \<noteq> [] \<and> 1 < length kw \<and> \<not> js_includes (toLowerCase kw) ''term''
                      \<and> \<not> js_includes (toLowerCase kw) ''keyword''
                 then Inr (push \<lparr>keyword = kw,
                                  volume = (if 0 < vol then vol else random_int rnd (draws st) 10000 + 500),
                                  trend = trend_of tr,
                                  changePercentage = ch,
                                  relevanceScore = 100 - int (length (keywordList st))\<rparr>
                             (st\<lparr>draws := (if 0 < vol then draws st else Suc (draws st))\<rparr>))
                 else Inr st))))
         else Inr st)
      else Inr st)"

definition structured_generic :: "(nat \<Rightarrow> rat) \<Rightarrow> string \<Rightarrow> pstate \<Rightarrow> thrown + pstate" where
  "structured_generic rnd txt st =
     (case tablePart_of txt of None \<Rightarrow> Inr st
      | Some tablePart \<Rightarrow>
          if tablePart = [] then Inr st
          else forEach (parseRow_generic rnd) (split_char CHR 0x0A (trim tablePart)) st)"

text \<open>
  The callback of the fallback: the text of the line before the first pipe, colon or
  hyphen, trimmed, the numbering stripped.
\<close>

definition genericRow_generic :: "(nat \<Rightarrow> rat) \<Rightarrow> pstate \<Rightarrow> string \<Rightarrow> thrown + pstate" where
  "genericRow_generic rnd st line =
     on_defined (js_index (split_where (\<lambda>c. c = CHR ''|'' \<or> c = CHR '':'' \<or> c = CHR ''-'') line) 0) (\<lambda>p0.
       (let cleanKw = strip_numbering ''.)'' (trim p0) in
        if 2 < length cleanKw \<and> length cleanKw < 50 \<and> \<not> js_includes (toLowerCase cleanKw) ''summary''
        then Inr (push \<lparr>keyword = cleanKw,
                         volume = random_int rnd (draws st) 5000 + 1000,
                         trend = Stable,
                         changePercentage = Finite 0,
                         relevanceScore = 50\<rparr>
                    (st\<lparr>draws := Suc (draws st)\<rparr>))
        else Inr st))"

text \<open>
  \<open>text.split('\n').filter(l => l.includes('|') || l.length > 15).slice(0, 50)\<close> and
  the loop over these lines, when the list is empty.
\<close>

definition fallback_generic :: "(nat \<Rightarrow> rat) \<Rightarrow> string \<Rightarrow> pstate \<Rightarrow> thrown + pstate" where
  "fallback_generic rnd txt st =
     (if keywordList st = [] then
        forEach (genericRow_generic rnd)
          (take 50 (filter (\<lambda>l. js_includes l ''|'' \<or> 15 < length l) (split_char CHR 0x0A txt))) st
      else Inr st)"

definition extract_generic :: "(nat \<Rightarrow> rat) \<Rightarrow> string \<Rightarrow> thrown + pstate" where
  "extract_generic rnd txt =
     then_do (structured_generic rnd txt start) (\<lambda>st0.
     then_do (fallback_generic rnd txt st0) (\<lambda>st1.
       if keywordList st1 = []
       then Inl (Error ''Could not extract market data from the AI response. Please try again.'')
       else Inr st1))"

definition analyse_generic :: "env \<Rightarrow> string \<Rightarrow> thrown + response \<Rightarrow> thrown + MarketReport" where
  "analyse_generic e prof res =
     then_do res (\<lambda>resp.
       (let txt = (case resp_text resp of None \<Rightarrow> [] | Some t \<Rightarrow> t) in
        if txt = [] then
          Inl (Error ''The AI returned an empty response. Please try a different keyword.'')
        else
          (let srcs = sources_of ''Market Source'' resp;
               summ = summary_of (starts_with_ci ''SUMMARY:'') (starts_with_ci ''DATA_TABLE:'')
                        ''Analysis complete. Review the trending data below.'' txt
           in then_do (extract_generic (random e) txt)
                (\<lambda>st. Inr (assemble prof summ (keywordList st) srcs (now e))))))"

text \<open>
  The \<open>catch\<close> block reads \<open>JSON.parse(error.message)\<close>. The parser is taken as a
  parameter, and of its result what the block looks at: \<open>NotJSON\<close> when the parse or the
  read of \<open>errObj.error\<close> throws, otherwise whether \<open>errObj.error?.code\<close> is 429 and
  the message \<open>errObj.error?.message\<close>, absent when it is falsy.
\<close>

datatype json_view = NotJSON | ErrorObject bool "string option"

definition catch_generic :: "(string \<Rightarrow> json_view) \<Rightarrow> thrown \<Rightarrow> thrown" where
  "catch_generic json t =
     (let userMessage = or_default (message t) ''An unexpected error occurred.'' in
      case json (case message t of None \<Rightarrow> ''undefined'' | Some m \<Rightarrow> m) of
        ErrorObject is429 m \<Rightarrow>
          if is429
          then Error ''Rate limit exceeded. The search tool is currently busy. Please wait about 60 seconds and try again.''
          else Error (or_default m userMessage)
      | NotJSON \<Rightarrow>
          if (case message t of None \<Rightarrow> False
              | Some m \<Rightarrow> js_includes m ''429'' \<or> js_includes m ''RESOURCE_EXHAUSTED'')
          then Error ''Too many requests. Google's search grounding tool has a temporary quota limit. Please try again in a minute.''
          else Error userMessage)"

definition missing_key_generic :: thrown where
  "missing_key_generic =
     Error ''API Key is missing. Please ensure your key is correctly set in your environment variables.''"

definition getMarketAnalysis_generic ::
    "(string \<Rightarrow> json_view) \<Rightarrow> env \<Rightarrow> string \<Rightarrow> request list \<times> (thrown + MarketReport)" where
  "getMarketAnalysis_generic json e prof =
     (if key_unusable (API_KEY e) then ([], Inl missing_key_generic)
      else
        (let req = \<lparr>apiKey = usable_key (API_KEY e), subject = prof\<rparr> in
         ([req], case analyse_generic e prof (generateContent e req) of
                   Inl t \<Rightarrow> Inl (catch_generic json t) | Inr r \<Rightarrow> Inr r)))"

section \<open>Calls of the client and requests on the network\<close>

text \<open>
  The first component of a run lists the calls of \<open>ai.models.generateContent\<close>. The
  client is a library outside the repository. One fact about it is used: a call made with a
  non-empty key is sent to the service with that key. What the client does with the empty
  key is left open, so such a call is not counted as a request.
\<close>

definition sent_requests :: "request list \<Rightarrow> request list" where
  "sent_requests calls = filter (\<lambda>r. apiKey r \<noteq> []) calls"

section \<open>What the tiers promise about a record\<close>

text \<open>
  \<open>extends_by A s s'\<close>: the list of \<open>s'\<close> is the list of \<open>s\<close> with records appended
  that all satisfy \<open>A\<close>; nothing is removed or replaced.
\<close>

definition extends_by :: "(TrendData \<Rightarrow> bool) \<Rightarrow> pstate \<Rightarrow> pstate \<Rightarrow> bool" where
  "extends_by A s s' \<longleftrightarrow> (\<exists>new. keywordList s' = keywordList s @ new \<and> (\<forall>k\<in>set new. A k))"

text \<open>A term that contains neither header token, in any letter case.\<close>

definition header_free :: "string \<Rightarrow> bool" where
  "header_free kw \<longleftrightarrow>
     \<not> js_includes (toLowerCase kw) ''term'' \<and> \<not> js_includes (toLowerCase kw) ''keyword''"

text \<open>A record of the structured tier of the \<open>DATA_TABLE:\<close> variant.\<close>

definition accepted_table :: "(nat \<Rightarrow> rat) \<Rightarrow> TrendData \<Rightarrow> bool" where
  "accepted_table rnd k \<longleftrightarrow>
     1 < length (keyword k) \<and> header_free (keyword k) \<and> (unit_source rnd \<longrightarrow> 0 < volume k)"

text \<open>A record of the loose re-scan.\<close>

definition rescanned_table :: "(nat \<Rightarrow> rat) \<Rightarrow> TrendData \<Rightarrow> bool" where
  "rescanned_table rnd k \<longleftrightarrow>
     trend k = Stable \<and> relevanceScore k = 50 \<and> changePercentage k = Finite 0
     \<and> (unit_source rnd \<longrightarrow> 1000 \<le> volume k \<and> volume k < 11000)"

text \<open>A record of the structured tier of the \<open>DATA:\<close> variant.\<close>

definition accepted_data :: "(nat \<Rightarrow> rat) \<Rightarrow> TrendData \<Rightarrow> bool" where
  "accepted_data rnd k \<longleftrightarrow> 1 < length (keyword k) \<and> (unit_source rnd \<longrightarrow> 0 < volume k)"

text \<open>A record of the token salvage: fixed metrics and a keyword of letters only.\<close>

definition salvaged :: "TrendData \<Rightarrow> bool" where
  "salvaged k \<longleftrightarrow>
     volume k = 5000 \<and> trend k = Stable \<and> changePercentage k = Finite 0 \<and> relevanceScore k = 50
     \<and> (\<forall>c\<in>set (keyword k). is_alpha c)"

text \<open>A record of the structured tier of the lenient variant.\<close>

definition accepted_lenient :: "(nat \<Rightarrow> rat) \<Rightarrow> TrendData \<Rightarrow> bool" where
  "accepted_lenient rnd k \<longleftrightarrow> (unit_source rnd \<longrightarrow> 0 < volume k)"

text \<open>A record of the generic-line fallback.\<close>

definition fallen_back :: "(nat \<Rightarrow> rat) \<Rightarrow> TrendData \<Rightarrow> bool" where
  "fallen_back rnd k \<longleftrightarrow>
     2 < length (keyword k) \<and> trend k = Stable \<and> relevanceScore k = 50 \<and> changePercentage k = Finite 0
     \<and> (unit_source rnd \<longrightarrow> 1000 \<le> volume k \<and> volume k < 6000)"

text \<open>A record of the curated fallback.\<close>

definition curated :: "TrendData \<Rightarrow> bool" where
  "curated k \<longleftrightarrow> keyword k \<in> set fallbackWords \<and> k = fallback_record (keyword k)"

section \<open>Sample surroundings\<close>

text \<open>
  Concrete inputs for the worked examples: a source of randomness that always returns
  one half, a model that answers with a given text, a model that rejects the call, and
  the surroundings built from a key and a model.
\<close>

definition half :: "nat \<Rightarrow> rat" where
  "half i = 1 / 2"

definition reply :: "string \<Rightarrow> request \<Rightarrow> thrown + response" where
  "reply t req = Inr \<lparr>resp_text = Some t, groundingChunks = None\<rparr>"

definition refuse :: "request \<Rightarrow> thrown + response" where
  "refuse req = Inl (Rejection (Some ''API key not valid. Please pass a valid API key.''))"

definition sample_env :: "string option \<Rightarrow> (request \<Rightarrow> thrown + response) \<Rightarrow> env" where
  "sample_env k model = \<lparr>API_KEY = k, generateContent = model, random = half, now = ''11/2/2026, 10:00:00 AM''\<rparr>"

text \<open>A reply with a summary and a table of one row.\<close>

definition one_row_reply :: string where
  "one_row_reply = ''SUMMARY: Bread is rising.\<newline>DATA_TABLE:\<newline>Sourdough | 45000 | Up | 25''"

text \<open>The same reply followed by a line of prose with a hyphen.\<close>

definition prose_reply :: string where
  "prose_reply =
     ''SUMMARY: Bread is rising.\<newline>DATA_TABLE:\<newline>Sourdough | 45000 | Up | 25\<newline>Rye bread - a steady seller''"

text \<open>A reply for the lenient variant whose one row is written as a row of a Markdown table.\<close>

definition markdown_row_reply :: string where
  "markdown_row_reply = ''KEYWORDS_START\<newline>| Sourdough | 45000 | Up | 25 |\<newline>KEYWORDS_END''"

text \<open>A reply for the lenient variant with a block of four rows, none of them a curated term.\<close>

definition four_row_reply :: string where
  "four_row_reply =
     ''KEYWORDS_START\<newline>coffee|100|up|5\<newline>bakery|90|up|4\<newline>barista|80|down|3\<newline>espresso|70|stable|2\<newline>KEYWORDS_END''"

text \<open>The four candidates that the structured tier of the lenient variant reads from it.\<close>

definition four_candidates :: pstate where
  "four_candidates =
     \<lparr>keywordList =
        [\<lparr>keyword = ''coffee'', volume = 100, trend = Up, changePercentage = Finite 5, relevanceScore = 85\<rparr>,
         \<lparr>keyword = ''bakery'', volume = 90, trend = Up, changePercentage = Finite 4, relevanceScore = 85\<rparr>,
         \<lparr>keyword = ''barista'', volume = 80, trend = Down, changePercentage = Finite 3, relevanceScore = 85\<rparr>,
         \<lparr>keyword = ''espresso'', volume = 70, trend = Stable, changePercentage = Finite 2, relevanceScore = 85\<rparr>],
      draws = 4\<rparr>"

section \<open>The sort by volume\<close>

lemma insert_sorted_volume:
  "insert_sorted cmp_volume x ys = insort_key (\<lambda>k. - volume k) x ys"
  by (induction ys) (simp_all add: cmp_volume_def)

lemma js_sort_volume: "js_sort cmp_volume ks = sort_key (\<lambda>k. - volume k) ks"
  by (induction ks) (simp_all add: insert_sorted_volume)

lemma js_sort_descending: "sorted_wrt (\<lambda>a b. volume b \<le> volume a) (js_sort cmp_volume ks)"
proof -
  have "sorted (map (\<lambda>k. - volume k) (sort_key (\<lambda>k. - volume k) ks))"
    by (rule sorted_sort_key)
  then show ?thesis
    by (simp add: js_sort_volume sorted_map)
qed

lemma js_sort_stable:
  "filter (\<lambda>k. volume k = v) (js_sort cmp_volume ks) = filter (\<lambda>k. volume k = v) ks"
proof -
  have "filter (\<lambda>k. - volume k = - v) (sort_key (\<lambda>k. - volume k) ks)
          = filter (\<lambda>k. - volume k = - v) ks"
    by (rule sort_key_stable)
  then show ?thesis
    by (simp add: js_sort_volume)
qed

lemma js_sort_length: "length (js_sort cmp_volume ks) = length ks"
  by (simp add: js_sort_volume)

section \<open>Loops that only append\<close>

lemma extends_by_refl: "extends_by A s s"
  by (simp add: extends_by_def)

lemma extends_by_trans: "extends_by A s t \<Longrightarrow> extends_by A t u \<Longrightarrow> extends_by A s u"
  by (auto simp: extends_by_def)

lemma extends_by_one: "keywordList s' = keywordList s @ [k] \<Longrightarrow> A k \<Longrightarrow> extends_by A s s'"
  by (simp add: extends_by_def)

lemma extends_by_weaken: "extends_by A s s' \<Longrightarrow> (\<And>k. A k \<Longrightarrow> B k) \<Longrightarrow> extends_by B s s'"
  by (auto simp: extends_by_def)

lemma extends_by_start: "extends_by A start s' \<Longrightarrow> \<forall>k\<in>set (keywordList s'). A k"
  by (auto simp: extends_by_def start_def)

lemma forEach_extends:
  assumes step: "\<And>s x s'. f s x = Inr s' \<Longrightarrow> extends_by A s s'"
  shows "forEach f xs s = Inr s' \<Longrightarrow> extends_by A s s'"
proof (induction xs arbitrary: s)
  case Nil
  then show ?case by (simp add: extends_by_refl)
next
  case (Cons x xs)
  then obtain t where t: "f s x = Inr t" and rest: "forEach f xs t = Inr s'"
    by (auto split: sum.splits)
  from step [OF t] Cons.IH [OF rest] show ?case
    by (rule extends_by_trans)
qed

lemma forEach_total:
  assumes step: "\<And>s x. \<exists>s'. f s x = Inr s'"
  shows "\<exists>s'. forEach f xs s = Inr s'"
proof (induction xs arbitrary: s)
  case Nil
  show ?case by simp
next
  case (Cons x xs)
  from step obtain t where "f s x = Inr t" by blast
  with Cons.IH [of t] show ?case by simp
qed

lemma random_int_bounds:
  assumes "unit_source rnd" and "0 < n"
  shows "0 \<le> random_int rnd i n" and "random_int rnd i n < n"
proof -
  from assms have r: "0 \<le> rnd i" "rnd i < 1"
    by (simp_all add: unit_source_def)
  with assms(2) have "0 \<le> rnd i * of_int n"
    by simp
  then show "0 \<le> random_int rnd i n"
    by (simp add: random_int_def)
  from r assms(2) have "rnd i * of_int n < of_int n"
    by simp
  then show "random_int rnd i n < n"
    by (simp add: random_int_def floor_less_iff)
qed

subsection \<open>The tiers of the \<open>DATA_TABLE:\<close> variant\<close>

lemma parseRow_table_extends:
  "parseRow_table rnd st line = Inr st' \<Longrightarrow> extends_by (accepted_table rnd) st st'"
  using random_int_bounds(1) [of rnd 15000 "draws st"]
  by (auto simp: parseRow_table_def Let_def on_defined_def js_index_def push_def
                 accepted_table_def header_free_def
           intro!: extends_by_one extends_by_refl split: if_splits)

lemma parseRow_table_total: "\<exists>st'. parseRow_table rnd st line = Inr st'"
  by (simp add: parseRow_table_def Let_def on_defined_def js_index_def)

lemma structured_table_extends:
  assumes "structured_table rnd txt st = Inr st'"
  shows "extends_by (accepted_table rnd) st st'"
proof (cases "tablePart_of txt")
  case None
  with assms show ?thesis
    by (simp add: structured_table_def extends_by_refl)
next
  case (Some tablePart)
  show ?thesis
  proof (cases "tablePart = []")
    case True
    with Some assms show ?thesis
      by (simp add: structured_table_def extends_by_refl)
  next
    case False
    with Some assms
    have "forEach (parseRow_table rnd) (split_char CHR 0x0A (trim tablePart)) st = Inr st'"
      by (simp add: structured_table_def)
    then show ?thesis
      by (rule forEach_extends [rotated]) (rule parseRow_table_extends)
  qed
qed

lemma structured_table_total: "\<exists>st'. structured_table rnd txt st = Inr st'"
  by (simp add: structured_table_def forEach_total parseRow_table_total split: option.splits)

lemma fuzzyRow_table_extends:
  "fuzzyRow_table rnd st line = Inr st' \<Longrightarrow> extends_by (rescanned_table rnd) st st'"
  using random_int_bounds [of rnd 10000 "draws st"]
  by (auto simp: fuzzyRow_table_def Let_def on_defined_def js_index_def push_def rescanned_table_def
           intro!: extends_by_one extends_by_refl split: if_splits)

lemma fuzzyRow_table_total: "\<exists>st'. fuzzyRow_table rnd st line = Inr st'"
  by (simp add: fuzzyRow_table_def Let_def on_defined_def js_index_def)

lemma fuzzy_table_extends:
  assumes "fuzzy_table rnd txt st = Inr st'"
  shows "extends_by (rescanned_table rnd) st st'"
proof (cases "length (keywordList st) < 5")
  case True
  with assms have "forEach (fuzzyRow_table rnd) (split_char CHR 0x0A txt) st = Inr st'"
    by (simp add: fuzzy_table_def)
  then show ?thesis
    by (rule forEach_extends [rotated]) (rule fuzzyRow_table_extends)
next
  case False
  with assms show ?thesis
    by (simp add: fuzzy_table_def extends_by_refl)
qed

lemma fuzzy_table_total: "\<exists>st'. fuzzy_table rnd txt st = Inr st'"
  by (simp add: fuzzy_table_def forEach_total fuzzyRow_table_total)

lemma extract_table_cases:
  obtains (failure) st0 st1 where "structured_table rnd txt start = Inr st0"
      and "fuzzy_table rnd txt st0 = Inr st1" and "keywordList st1 = []"
      and "extract_table rnd txt =
             Inl (Error ''Could not extract market data. The AI response was not in the expected format.'')"
  | (success) st0 st1 where "structured_table rnd txt start = Inr st0"
      and "fuzzy_table rnd txt st0 = Inr st1" and "keywordList st1 \<noteq> []"
      and "extract_table rnd txt = Inr st1"
proof -
  obtain st0 where s0: "structured_table rnd txt start = Inr st0"
    using structured_table_total by blast
  obtain st1 where s1: "fuzzy_table rnd txt st0 = Inr st1"
    using fuzzy_table_total by blast
  show thesis
  proof (cases "keywordList st1 = []")
    case True
    with s0 s1 show ?thesis
      by (intro failure [of st0 st1]) (simp_all add: extract_table_def then_do_def)
  next
    case False
    with s0 s1 show ?thesis
      by (intro success [of st0 st1]) (simp_all add: extract_table_def then_do_def)
  qed
qed

subsection \<open>The tiers of the \<open>DATA:\<close> variant\<close>

lemma parseRow_data_extends:
  "parseRow_data rnd st line = Inr st' \<Longrightarrow> extends_by (accepted_data rnd) st st'"
  using random_int_bounds(1) [of rnd 15000 "draws st"]
  by (auto simp: parseRow_data_def Let_def on_defined_def js_index_def push_def accepted_data_def
           intro!: extends_by_one extends_by_refl split: if_splits)

lemma parseRow_data_total: "\<exists>st'. parseRow_data rnd st line = Inr st'"
  by (simp add: parseRow_data_def Let_def on_defined_def js_index_def)

lemma structured_data_extends:
  assumes "structured_data rnd txt st = Inr st'"
  shows "extends_by (accepted_data rnd) st st'"
proof (cases "keywordSection_of txt = []")
  case True
  with assms show ?thesis
    by (simp add: structured_data_def extends_by_refl)
next
  case False
  with assms
  have "forEach (parseRow_data rnd) (split_char CHR 0x0A (trim (keywordSection_of txt))) st = Inr st'"
    by (simp add: structured_data_def)
  then show ?thesis
    by (rule forEach_extends [rotated]) (rule parseRow_data_extends)
qed

lemma structured_data_total: "\<exists>st'. structured_data rnd txt st = Inr st'"
  by (simp add: structured_data_def Let_def forEach_total parseRow_data_total)


lemma split_ws_from_no_ws:
  "\<forall>c\<in>set acc. \<not> is_ws c \<Longrightarrow> \<forall>w\<in>set (split_ws_from b acc s). \<forall>c\<in>set w. \<not> is_ws c"
proof (induction s arbitrary: b acc)
  case Nil
  then show ?case by simp
next
  case (Cons a s)
  have nil: "\<forall>w\<in>set (split_ws_from True [] s). \<forall>c\<in>set w. \<not> is_ws c"
    by (rule Cons.IH) simp
  show ?case
  proof (cases "is_ws a")
    case True
    with nil Cons.prems show ?thesis by simp
  next
    case False
    with Cons.prems have "\<forall>c\<in>set (a # acc). \<not> is_ws c" by simp
    from Cons.IH [OF this] False show ?thesis by simp
  qed
qed

lemma split_ws_no_ws: "w \<in> set (split_ws txt) \<Longrightarrow> \<forall>c\<in>set w. \<not> is_ws c"
proof -
  have "\<forall>w\<in>set (split_ws_from False [] txt). \<forall>c\<in>set w. \<not> is_ws c"
    by (rule split_ws_from_no_ws) simp
  then show "w \<in> set (split_ws txt) \<Longrightarrow> \<forall>c\<in>set w. \<not> is_ws c"
    by (simp add: split_ws_def)
qed

lemma salvage_words_bound: "length (salvage_words txt) \<le> 10"
  by (simp add: salvage_words_def)

lemma salvage_words_no_ws: "w \<in> set (salvage_words txt) \<Longrightarrow> \<forall>c\<in>set w. \<not> is_ws c"
  by (auto simp: salvage_words_def dest!: in_set_takeD split_ws_no_ws)

lemma salvaged_record: "\<forall>c\<in>set w. \<not> is_ws c \<Longrightarrow> salvaged (salvage_record w)"
  by (auto simp: salvaged_def salvage_record_def is_ws_def)

lemma forEach_salvage:
  "forEach (\<lambda>s w. Inr (push (salvage_record w) s)) ws st
     = Inr (st\<lparr>keywordList := keywordList st @ map salvage_record ws\<rparr>)"
  by (induction ws arbitrary: st) (simp_all add: push_def)

lemma salvage_data_empty:
  "keywordList st = [] \<Longrightarrow>
   salvage_data txt st =
     (if salvage_words txt = []
      then Inl (Error ''Could not extract structured data from the analysis. Please try a simpler search term.'')
      else Inr (st\<lparr>keywordList := map salvage_record (salvage_words txt)\<rparr>))"
  by (simp add: salvage_data_def Let_def forEach_salvage)

lemma salvage_data_nonempty: "keywordList st \<noteq> [] \<Longrightarrow> salvage_data txt st = Inr st"
  by (simp add: salvage_data_def)

lemma salvage_data_extends:
  assumes "salvage_data txt st = Inr st'"
  shows "extends_by salvaged st st'"
proof (cases "keywordList st = []")
  case True
  with assms have "keywordList st' = keywordList st @ map salvage_record (salvage_words txt)"
    by (auto simp: salvage_data_empty split: if_splits)
  moreover have "\<forall>k\<in>set (map salvage_record (salvage_words txt)). salvaged k"
    by (auto intro: salvaged_record dest: salvage_words_no_ws)
  ultimately show ?thesis
    unfolding extends_by_def by blast
next
  case False
  with assms show ?thesis
    by (simp add: salvage_data_nonempty extends_by_refl)
qed

subsection \<open>Splitting and searching\<close>

lemma split_where_no_separator: "\<forall>c\<in>set s. \<not> p c \<Longrightarrow> split_where p s = [s]"
  by (induction s) simp_all

lemma split_at_match_None:
  "p \<noteq> [] \<Longrightarrow> split_at_match (starts_with p) n s = None \<longleftrightarrow> \<not> js_includes s p"
  by (induction s) (auto simp: neq_Nil_conv)

lemma split_at_match_ci_None:
  "p \<noteq> [] \<Longrightarrow>
   split_at_match (starts_with_ci p) n s = None \<longleftrightarrow> \<not> js_includes (map canon s) (map canon p)"
  by (induction s) (auto simp: neq_Nil_conv starts_with_ci_def)

lemma keywordSection_of_no_marker:
  "\<not> js_includes (map canon txt) ''DATA:'' \<Longrightarrow> keywordSection_of txt = []"
proof -
  assume "\<not> js_includes (map canon txt) ''DATA:''"
  moreover have "map canon ''DATA:'' = ''DATA:''"
    by code_simp
  ultimately have "split_at_match (starts_with_ci ''DATA:'') 5 txt = None"
    using split_at_match_ci_None [of "''DATA:''" 5 "txt"] by simp
  then show ?thesis
    by (simp add: keywordSection_of_def)
qed

subsection \<open>The tiers of the lenient variant\<close>

lemma digits_value_nonneg:
  fixes r :: int
  shows "0 \<le> r \<Longrightarrow> \<forall>d\<in>set ds. 0 \<le> d \<Longrightarrow> 0 \<le> a \<Longrightarrow> 0 \<le> foldl (\<lambda>a d. a * r + d) a ds"
proof (induction ds arbitrary: a)
  case Nil
  then show ?case by simp
next
  case (Cons d ds)
  then have "0 \<le> a * r + d" by simp
  with Cons show ?case by simp
qed

lemma digit_val_nonneg: "is_digit c \<Longrightarrow> 0 \<le> digit_val c"
  by (auto simp: is_digit_def digit_val_def)

lemma hex_val_nonneg: "hex_val c = Some d \<Longrightarrow> 0 \<le> d"
  by (auto simp: hex_val_def Let_def split: if_splits)

lemma parseInt_unsigned:
  assumes "\<not> starts_with ''-'' (trimStart s)" and "parseInt s = Some v"
  shows "0 \<le> v"
proof -
  have dec: "0 \<le> digits_value 10 (map digit_val (takeWhile is_digit t))" for t
    unfolding digits_value_def
    by (rule digits_value_nonneg) (auto dest: set_takeWhileD intro: digit_val_nonneg)
  have hex: "0 \<le> digits_value 16 (List.map_filter hex_val (takeWhile (\<lambda>c. hex_val c \<noteq> None) t))" for t
    unfolding digits_value_def
    by (rule digits_value_nonneg) (auto simp: List.map_filter_def intro: hex_val_nonneg)
  from assms show ?thesis
    using dec hex by (auto simp: parseInt_def Let_def split: if_splits)
qed

lemma digits_not_signed: "\<not> starts_with ''-'' (trimStart (filter is_digit s))"
proof -
  have "set (trimStart (filter is_digit s)) \<subseteq> {c. is_digit c}"
    by (auto simp: trimStart_def dest: set_dropWhileD)
  moreover have "\<not> is_digit CHR ''-''"
    by (simp add: is_digit_def)
  ultimately show ?thesis
    by (cases "trimStart (filter is_digit s)") auto
qed

lemma parseInt_digits_nonneg: "parseInt (filter is_digit s) = Some v \<Longrightarrow> 0 \<le> v"
  by (rule parseInt_unsigned [OF digits_not_signed])

lemma parseRow_lenient_extends:
  "parseRow_lenient rnd st line = Inr st' \<Longrightarrow> extends_by (accepted_lenient rnd) st st'"
  using random_int_bounds(1) [of rnd 50000 "draws st"]
  by (auto simp: parseRow_lenient_def Let_def on_defined_def js_index_def push_def accepted_lenient_def
           intro!: extends_by_one extends_by_refl dest: parseInt_digits_nonneg
           split: if_splits option.splits)

lemma parseRow_lenient_total: "\<exists>st'. parseRow_lenient rnd st line = Inr st'"
  by (simp add: parseRow_lenient_def Let_def on_defined_def js_index_def)

lemma structured_lenient_extends:
  assumes "structured_lenient rnd txt st = Inr st'"
  shows "extends_by (accepted_lenient rnd) st st'"
proof (cases "keywordBlock_of txt")
  case None
  with assms show ?thesis
    by (simp add: structured_lenient_def extends_by_refl)
next
  case (Some block)
  with assms have "forEach (parseRow_lenient rnd) (split_char CHR 0x0A (trim block)) st = Inr st'"
    by (simp add: structured_lenient_def)
  then show ?thesis
    by (rule forEach_extends [rotated]) (rule parseRow_lenient_extends)
qed

lemma structured_lenient_total: "\<exists>st'. structured_lenient rnd txt st = Inr st'"
  by (simp add: structured_lenient_def forEach_total parseRow_lenient_total split: option.splits)

lemma find_None: "find P xs = None \<longleftrightarrow> (\<forall>x\<in>set xs. \<not> P x)"
  by (induction xs) simp_all

lemma forEach_fallback:
  "distinct ws \<Longrightarrow>
   forEach fallbackWord_lenient ws st
     = Inr (st\<lparr>keywordList := keywordList st
              @ map fallback_record (filter (\<lambda>w. w \<notin> keyword ` set (keywordList st)) ws)\<rparr>)"
proof (induction ws arbitrary: st)
  case Nil
  show ?case by simp
next
  case (Cons w ws)
  show ?case
  proof (cases "w \<in> keyword ` set (keywordList st)")
    case True
    then have "fallbackWord_lenient st w = Inr st"
      by (auto simp: fallbackWord_lenient_def find_None)
    with True Cons show ?thesis by simp
  next
    case False
    then have step: "fallbackWord_lenient st w = Inr (push (fallback_record w) st)"
      by (auto simp: fallbackWord_lenient_def find_None)
    have "filter (\<lambda>v. v \<notin> keyword ` set (keywordList (push (fallback_record w) st))) ws
            = filter (\<lambda>v. v \<notin> keyword ` set (keywordList st)) ws"
      using Cons.prems by (auto simp: push_def fallback_record_def intro!: filter_cong)
    with step False Cons show ?thesis
      by (simp add: push_def)
  qed
qed

lemma distinct_fallbackWords: "distinct fallbackWords"
  by (simp add: fallbackWords_def)

lemma length_fallbackWords: "length fallbackWords = 5"
  by (simp add: fallbackWords_def)

lemma missing_fallback_count:
  "5 \<le> length ks + length (filter (\<lambda>w. w \<notin> keyword ` set ks) fallbackWords)"
proof -
  let ?K = "keyword ` set ks"
  have "length (filter (\<lambda>w. w \<in> ?K) fallbackWords) = card (set (filter (\<lambda>w. w \<in> ?K) fallbackWords))"
    by (rule distinct_card [symmetric]) (simp add: distinct_fallbackWords)
  also have "\<dots> \<le> card ?K"
    by (rule card_mono) auto
  also have "\<dots> \<le> length ks"
    by (meson card_image_le card_length le_trans List.finite_set)
  finally have present: "length (filter (\<lambda>w. w \<in> ?K) fallbackWords) \<le> length ks" .
  have "length (filter (\<lambda>w. w \<in> ?K) fallbackWords) + length (filter (\<lambda>w. \<not> w \<in> ?K) fallbackWords) = 5"
    using sum_length_filter_compl [of "\<lambda>w. w \<in> ?K" fallbackWords] by (simp add: length_fallbackWords)
  with present show ?thesis
    by simp
qed

lemma curated_lenient_result:
  "curated_lenient st =
     Inr (if length (keywordList st) < 5
          then st\<lparr>keywordList := keywordList st
                 @ map fallback_record (filter (\<lambda>w. w \<notin> keyword ` set (keywordList st)) fallbackWords)\<rparr>
          else st)"
  by (simp add: curated_lenient_def forEach_fallback distinct_fallbackWords)

lemma curated_fallback_record: "w \<in> set fallbackWords \<Longrightarrow> curated (fallback_record w)"
  by (simp add: curated_def fallback_record_def)

lemma curated_lenient_extends: "curated_lenient st = Inr st' \<Longrightarrow> extends_by curated st st'"
  by (auto simp: curated_lenient_result extends_by_def intro: curated_fallback_record split: if_splits)

lemma curated_props: "curated k \<Longrightarrow> volume k = 12000 \<and> 1 < length (keyword k) \<and> trend k = Up"
  by (auto simp: curated_def fallback_record_def fallbackWords_def)

subsection \<open>The tiers of the second \<open>DATA_TABLE:\<close> variant\<close>

lemma parseRow_generic_extends:
  "parseRow_generic rnd st line = Inr st' \<Longrightarrow> extends_by (accepted_table rnd) st st'"
  using random_int_bounds(1) [of rnd 10000 "draws st"]
  by (auto simp: parseRow_generic_def Let_def on_defined_def js_index_def push_def
                 accepted_table_def header_free_def
           intro!: extends_by_one extends_by_refl split: if_splits)

lemma parseRow_generic_total: "\<exists>st'. parseRow_generic rnd st line = Inr st'"
  by (simp add: parseRow_generic_def Let_def on_defined_def js_index_def)

lemma structured_generic_extends:
  assumes "structured_generic rnd t st = Inr st'"
  shows "extends_by (accepted_table rnd) st st'"
proof (cases "tablePart_of t")
  case None
  with assms show ?thesis
    by (simp add: structured_generic_def extends_by_refl)
next
  case (Some tablePart)
  show ?thesis
  proof (cases "tablePart = []")
    case True
    with Some assms show ?thesis
      by (simp add: structured_generic_def extends_by_refl)
  next
    case False
    with Some assms
    have "forEach (parseRow_generic rnd) (split_char CHR 0x0A (trim tablePart)) st = Inr st'"
      by (simp add: structured_generic_def)
    then show ?thesis
      by (rule forEach_extends [rotated]) (rule parseRow_generic_extends)
  qed
qed

lemma structured_generic_total: "\<exists>st'. structured_generic rnd t st = Inr st'"
  by (simp add: structured_generic_def forEach_total parseRow_generic_total split: option.splits)

lemma split_where_nonempty: "split_where p s \<noteq> []"
  by (induction s) (simp_all split: list.splits)

lemma genericRow_generic_extends:
  "genericRow_generic rnd st line = Inr st' \<Longrightarrow> extends_by (fallen_back rnd) st st'"
  using random_int_bounds [of rnd 5000 "draws st"]
  by (auto simp: genericRow_generic_def Let_def on_defined_def js_index_def push_def fallen_back_def
           intro!: extends_by_one extends_by_refl split: if_splits)

lemma genericRow_generic_total: "\<exists>st'. genericRow_generic rnd st line = Inr st'"
  using split_where_nonempty [of "\<lambda>c. c = CHR ''|'' \<or> c = CHR '':'' \<or> c = CHR ''-''" line]
  by (simp add: genericRow_generic_def Let_def on_defined_def js_index_def)

lemma fallback_generic_extends:
  assumes "fallback_generic rnd t st = Inr st'"
  shows "extends_by (fallen_back rnd) st st'"
proof (cases "keywordList st = []")
  case True
  with assms have "forEach (genericRow_generic rnd)
          (take 50 (filter (\<lambda>l. js_includes l ''|'' \<or> 15 < length l) (split_char CHR 0x0A t))) st = Inr st'"
    by (simp add: fallback_generic_def)
  then show ?thesis
    by (rule forEach_extends [rotated]) (rule genericRow_generic_extends)
next
  case False
  with assms show ?thesis
    by (simp add: fallback_generic_def extends_by_refl)
qed

lemma fallback_generic_total: "\<exists>st'. fallback_generic rnd t st = Inr st'"
  by (simp add: fallback_generic_def forEach_total genericRow_generic_total)

lemma extract_generic_tiers:
  assumes "extract_generic rnd t = Inr st"
  obtains st0 where "structured_generic rnd t start = Inr st0" and "fallback_generic rnd t st0 = Inr st"
  using assms
  by (auto simp: extract_generic_def then_do_def split: sum.splits if_splits)

subsection \<open>Rows that are kept\<close>

lemma nonempty_of_length: "1 < length (kw :: string) \<Longrightarrow> kw \<noteq> []"
  by auto

lemma parseRow_table_kept:
  assumes "unit_source rnd" and "2 \<le> count_pipes line"
    and "map trim (split_char CHR ''|'' line) = p0 # p1 # p2 # rest"
    and "1 < length (strip_numbering ''.)'' p0)"
    and "\<not> js_includes (toLowerCase (strip_numbering ''.)'' p0)) ''term''"
    and "\<not> js_includes (toLowerCase (strip_numbering ''.)'' p0)) ''keyword''"
  shows "\<exists>k d. parseRow_table rnd st line = Inr (push k (st\<lparr>draws := d\<rparr>))
           \<and> keyword k = strip_numbering ''.)'' p0
           \<and> (case parseInt (filter is_digit (filter (\<lambda>c. c \<noteq> CHR '','') p1)) of
                 None \<Rightarrow> d = Suc (draws st) \<and> volume k = random_int rnd (draws st) 15000 + 500
                          \<and> 500 \<le> volume k \<and> volume k < 15500
               | Some v \<Rightarrow>
                   if 0 < v then d = draws st \<and> volume k = v
                   else d = Suc (draws st) \<and> volume k = random_int rnd (draws st) 15000 + 500
                        \<and> 500 \<le> volume k \<and> volume k < 15500)"
  using assms random_int_bounds [of rnd 15000 "draws st"]
  by (auto simp: parseRow_table_def Let_def on_defined_def js_index_def split: option.splits)

lemma parseRow_generic_kept:
  assumes "unit_source rnd" and "2 \<le> count_pipes line"
    and "map trim (split_char CHR ''|'' line) = p0 # p1 # p2 # rest"
    and "1 < length (strip_numbering ''.)'' p0)"
    and "\<not> js_includes (toLowerCase (strip_numbering ''.)'' p0)) ''term''"
    and "\<not> js_includes (toLowerCase (strip_numbering ''.)'' p0)) ''keyword''"
  shows "\<exists>k d. parseRow_generic rnd st line = Inr (push k (st\<lparr>draws := d\<rparr>))
           \<and> keyword k = strip_numbering ''.)'' p0
           \<and> (case parseInt (filter is_digit (filter (\<lambda>c. c \<noteq> CHR '','') p1)) of
                 None \<Rightarrow> d = Suc (draws st) \<and> volume k = random_int rnd (draws st) 10000 + 500
                          \<and> 500 \<le> volume k \<and> volume k < 10500
               | Some v \<Rightarrow>
                   if 0 < v then d = draws st \<and> volume k = v
                   else d = Suc (draws st) \<and> volume k = random_int rnd (draws st) 10000 + 500
                        \<and> 500 \<le> volume k \<and> volume k < 10500)"
  using assms random_int_bounds [of rnd 10000 "draws st"]
  by (auto simp: parseRow_generic_def Let_def on_defined_def js_index_def split: option.splits)

lemma parseRow_data_kept:
  assumes "unit_source rnd"
    and "map trim (split_char CHR ''|'' line) = p0 # p1 # p2 # rest"
    and "1 < length (strip_numbering ''.'' p0)"
  shows "\<exists>k d. parseRow_data rnd st line = Inr (push k (st\<lparr>draws := d\<rparr>))
           \<and> keyword k = strip_numbering ''.'' p0
           \<and> (case parseInt (filter (\<lambda>c. c \<noteq> CHR '','') p1) of
                 None \<Rightarrow> d = Suc (draws st) \<and> volume k = random_int rnd (draws st) 15000 + 500
                          \<and> 500 \<le> volume k \<and> volume k < 15500
               | Some v \<Rightarrow>
                   if 0 < v then d = draws st \<and> volume k = v
                   else d = Suc (draws st) \<and> volume k = random_int rnd (draws st) 15000 + 500
                        \<and> 500 \<le> volume k \<and> volume k < 15500)"
  using assms random_int_bounds [of rnd 15000 "draws st"]
  by (auto simp: parseRow_data_def Let_def on_defined_def js_index_def split: option.splits)

lemma parseRow_lenient_kept:
  assumes "unit_source rnd"
    and "split_char CHR ''|'' line = p0 # p1 # p2 # rest"
    and "\<not> js_includes line ''Keyword|Volume''"
  shows "\<exists>k d. parseRow_lenient rnd st line = Inr (push k (st\<lparr>draws := d\<rparr>))
           \<and> keyword k = trim p0
           \<and> (case parseInt (filter is_digit p1) of
                 None \<Rightarrow> d = Suc (Suc (draws st)) \<and> volume k = random_int rnd (draws st) 50000 + 1000
                          \<and> 1000 \<le> volume k \<and> volume k < 51000
               | Some v \<Rightarrow>
                   if v \<noteq> 0 then d = Suc (draws st) \<and> volume k = v \<and> 0 < v
                   else d = Suc (Suc (draws st)) \<and> volume k = random_int rnd (draws st) 50000 + 1000
                        \<and> 1000 \<le> volume k \<and> volume k < 51000)"
proof -
  have nonneg: "0 \<le> v" if "parseInt (filter is_digit p1) = Some v" for v
    using that by (rule parseInt_digits_nonneg)
  show ?thesis
  proof (cases "parseInt (filter is_digit p1)")
    case None
    with assms random_int_bounds [of rnd 50000 "draws st"] show ?thesis
      by (auto simp: parseRow_lenient_def Let_def on_defined_def js_index_def)
  next
    case (Some v)
    with nonneg have "0 \<le> v" by simp
    with Some assms random_int_bounds [of rnd 50000 "draws st"] show ?thesis
      by (auto simp: parseRow_lenient_def Let_def on_defined_def js_index_def)
  qed
qed

section \<open>Whole runs\<close>

lemma catch_table_extraction:
  "catch_table (Error ''Could not extract market data. The AI response was not in the expected format.'')
     = Error ''Could not extract market data. The AI response was not in the expected format.''"
  by code_simp

lemma catch_data_extraction:
  "catch_data (Error ''Could not extract structured data from the analysis. Please try a simpler search term.'')
     = Error ''Could not extract structured data from the analysis. Please try a simpler search term.''"
  by code_simp

lemma getMarketAnalysis_table_answered:
  assumes "\<not> key_unusable (API_KEY e)"
    and "generateContent e \<lparr>apiKey = usable_key (API_KEY e), subject = prof\<rparr> = Inr resp"
    and "resp_text resp = Some t" and "t \<noteq> []"
  shows "snd (getMarketAnalysis_table e prof) =
           (case extract_table (random e) t of
              Inl x \<Rightarrow> Inl (catch_table x)
            | Inr st \<Rightarrow>
                Inr (assemble prof
                       (summary_of (starts_with_ci ''SUMMARY:'') (starts_with_ci ''DATA_TABLE:'')
                          ''Analysis complete. Trending data provided based on current market patterns.'' t)
                       (keywordList st) (sources_of ''Market Source'' resp) (now e)))"
  using assms
  by (simp add: getMarketAnalysis_table_def analyse_table_def then_do_def Let_def split: sum.splits)

lemma getMarketAnalysis_data_answered:
  assumes "\<not> key_unusable (API_KEY e)"
    and "generateContent e \<lparr>apiKey = usable_key (API_KEY e), subject = prof\<rparr> = Inr resp"
    and "resp_text resp = Some t" and "t \<noteq> []"
  shows "snd (getMarketAnalysis_data e prof) =
           (case extract_data (random e) t of
              Inl x \<Rightarrow> Inl (catch_data x)
            | Inr st \<Rightarrow>
                Inr (assemble prof
                       (summary_of (starts_with ''SUMMARY:'') (starts_with ''DATA:'')
                          ''Market analysis complete. Review the trending data below.'' t)
                       (keywordList st) (sources_of ''Market Reference'' resp) (now e)))"
  using assms
  by (simp add: getMarketAnalysis_data_def analyse_data_def then_do_def Let_def split: sum.splits)

lemma topKeywords_assemble_length:
  "length (topKeywords (assemble prof summ ks srcs stamp)) = min (length ks) 50"
  by (simp add: assemble_def js_sort_length)

lemma assemble_nonempty: "ks \<noteq> [] \<Longrightarrow> topKeywords (assemble prof summ ks srcs stamp) \<noteq> []"
  using topKeywords_assemble_length [of prof summ ks srcs stamp]
  by (cases ks) auto

lemma extract_data_cases:
  obtains (failure) st0 where "structured_data rnd t start = Inr st0"
      and "keywordList st0 = []" and "salvage_words t = []"
      and "extract_data rnd t =
             Inl (Error ''Could not extract structured data from the analysis. Please try a simpler search term.'')"
  | (salvage) st0 where "structured_data rnd t start = Inr st0"
      and "keywordList st0 = []" and "salvage_words t \<noteq> []"
      and "extract_data rnd t = Inr (st0\<lparr>keywordList := map salvage_record (salvage_words t)\<rparr>)"
  | (structured) st0 where "structured_data rnd t start = Inr st0"
      and "keywordList st0 \<noteq> []" and "extract_data rnd t = Inr st0"
proof -
  obtain st0 where s0: "structured_data rnd t start = Inr st0"
    using structured_data_total by blast
  show thesis
  proof (cases "keywordList st0 = []")
    case True
    show ?thesis
    proof (cases "salvage_words t = []")
      case empty: True
      with s0 True show ?thesis
        by (intro failure [of st0]) (simp_all add: extract_data_def then_do_def salvage_data_empty)
    next
      case False
      with s0 True show ?thesis
        by (intro salvage [of st0]) (simp_all add: extract_data_def then_do_def salvage_data_empty)
    qed
  next
    case False
    with s0 show ?thesis
      by (intro structured [of st0]) (simp_all add: extract_data_def then_do_def salvage_data_nonempty)
  qed
qed

lemma extract_data_nonempty: "extract_data rnd t = Inr st \<Longrightarrow> keywordList st \<noteq> []"
  by (rule extract_data_cases [of rnd t]) auto

lemma extract_table_nonempty: "extract_table rnd t = Inr st \<Longrightarrow> keywordList st \<noteq> []"
  by (rule extract_table_cases [of rnd t]) auto

lemma table_report_assembled:
  "snd (getMarketAnalysis_table e prof) = Inr r \<Longrightarrow> \<exists>summ ks srcs. r = assemble prof summ ks srcs (now e)"
  by (auto simp: getMarketAnalysis_table_def analyse_table_def then_do_def Let_def
           split: if_splits sum.splits)

lemma data_report_assembled:
  "snd (getMarketAnalysis_data e prof) = Inr r \<Longrightarrow> \<exists>summ ks srcs. r = assemble prof summ ks srcs (now e)"
  by (auto simp: getMarketAnalysis_data_def analyse_data_def then_do_def Let_def
           split: if_splits sum.splits)

lemma lenient_report_keywords:
  assumes "snd (getMarketAnalysis_lenient e prof) = Inr r"
  shows "\<exists>summ st0 st srcs t. structured_lenient (random e) t start = Inr st0
            \<and> curated_lenient st0 = Inr st \<and> r = assemble prof summ (keywordList st) srcs (now e)"
  using assms
  by (auto simp: getMarketAnalysis_lenient_def analyse_lenient_def extract_lenient_def then_do_def Let_def
           split: sum.splits)

lemma curated_lenient_five: "curated_lenient st0 = Inr st \<Longrightarrow> 5 \<le> length (keywordList st)"
  using missing_fallback_count [of "keywordList st0"]
  by (auto simp: curated_lenient_result split: if_splits)

lemma lenient_report_five:
  assumes "snd (getMarketAnalysis_lenient e prof) = Inr r"
  shows "5 \<le> length (topKeywords r)"
proof -
  from lenient_report_keywords [OF assms] obtain summ st0 st srcs
    where c: "curated_lenient st0 = Inr st" and r: "r = assemble prof summ (keywordList st) srcs (now e)"
    by blast
  from curated_lenient_five [OF c] show ?thesis
    unfolding r by (simp add: topKeywords_assemble_length)
qed

lemma unit_source_half: "unit_source half"
  by (simp add: unit_source_def half_def)

lemma one_row_structured:
  "structured_table half one_row_reply start
     = Inr \<lparr>keywordList = [\<lparr>keyword = ''Sourdough'', volume = 45000, trend = Up,
                             changePercentage = Finite 25, relevanceScore = 100\<rparr>], draws = 0\<rparr>"
  by code_simp

lemma one_row_extract:
  "extract_table half one_row_reply
     = Inr \<lparr>keywordList = [\<lparr>keyword = ''Sourdough'', volume = 45000, trend = Up,
                             changePercentage = Finite 25, relevanceScore = 100\<rparr>,
                           \<lparr>keyword = ''Sourdough'', volume = 6000, trend = Stable,
                             changePercentage = Finite 0, relevanceScore = 50\<rparr>], draws = 1\<rparr>"
  by code_simp

lemma four_rows_structured: "structured_lenient half four_row_reply start = Inr four_candidates"
  by code_simp

section \<open>The report: order and size of the keyword list\<close>

lemma assemble_keywords:
  "sorted_wrt (\<lambda>a b. volume b \<le> volume a) (topKeywords (assemble prof summ ks srcs stamp))
   \<and> length (topKeywords (assemble prof summ ks srcs stamp)) \<le> 50"
proof -
  have "sorted_wrt (\<lambda>a b. volume b \<le> volume a) (take 50 (js_sort cmp_volume ks))"
    by (rule sorted_wrt_take) (rule js_sort_descending)
  then show ?thesis
    by (simp add: assemble_def)
qed

text \<open>
  Claim C1. Whatever candidate list the tiers hand over, the keywords of the assembled
  report are in non-increasing order of volume; the records of one volume are an initial
  part of the input's records of that volume, in the input's order (the sort is stable
  and the cut keeps the front); there are at most 50 of them, and exactly 50 when the
  candidate list holds at least 50. Every report that the variants with the suffixes
  \<open>_table\<close>, \<open>_data\<close> and \<open>_lenient\<close> return is assembled this way, so its
  keywords are in that order and at most 50.
\<close>

theorem report_keywords_sorted_stable_bounded:
  "sorted_wrt (\<lambda>a b. volume b \<le> volume a) (topKeywords (assemble prof summ ks srcs stamp))
   \<and> (\<forall>v. prefix (filter (\<lambda>k. volume k = v) (topKeywords (assemble prof summ ks srcs stamp)))
                  (filter (\<lambda>k. volume k = v) ks))
   \<and> length (topKeywords (assemble prof summ ks srcs stamp)) \<le> 50
   \<and> (50 \<le> length ks \<longrightarrow> length (topKeywords (assemble prof summ ks srcs stamp)) = 50)
   \<and> (\<forall>r. snd (getMarketAnalysis_table e prof) = Inr r
            \<or> snd (getMarketAnalysis_data e prof) = Inr r
            \<or> snd (getMarketAnalysis_lenient e prof) = Inr r
         \<longrightarrow> sorted_wrt (\<lambda>a b. volume b \<le> volume a) (topKeywords r) \<and> length (topKeywords r) \<le> 50)"
proof -
  let ?s = "js_sort cmp_volume ks"
  have out: "topKeywords (assemble prof summ ks srcs stamp) = take 50 ?s"
    by (simp add: assemble_def)
  have "sorted_wrt (\<lambda>a b. volume b \<le> volume a) (take 50 ?s)"
    by (rule sorted_wrt_take) (rule js_sort_descending)
  moreover have "prefix (filter (\<lambda>k. volume k = v) (take 50 ?s)) (filter (\<lambda>k. volume k = v) ks)" for v
  proof -
    have "prefix (filter (\<lambda>k. volume k = v) (take 50 ?s)) (filter (\<lambda>k. volume k = v) ?s)"
      by (rule filter_mono_prefix) (rule take_is_prefix)
    then show ?thesis
      by (simp only: js_sort_stable)
  qed
  moreover have "length (take 50 ?s) \<le> 50"
    by simp
  moreover have "50 \<le> length ks \<longrightarrow> length (take 50 ?s) = 50"
    by (simp add: js_sort_length)
  moreover have "sorted_wrt (\<lambda>a b. volume b \<le> volume a) (topKeywords r) \<and> length (topKeywords r) \<le> 50"
    if "snd (getMarketAnalysis_table e prof) = Inr r
            \<or> snd (getMarketAnalysis_data e prof) = Inr r
            \<or> snd (getMarketAnalysis_lenient e prof) = Inr r" for r
  proof -
    from that obtain s' ks' srcs' where "r = assemble prof s' ks' srcs' (now e)"
      using table_report_assembled [of e prof r] data_report_assembled [of e prof r]
        lenient_report_keywords [of e prof r]
      by blast
    then show ?thesis
      by (simp only: assemble_keywords)
  qed
  ultimately show ?thesis
    unfolding out by blast
qed

text \<open>
  The theorem at a list of 50 candidates, and the order at a list of three: the record of
  volume 12000 first, then the two of volume 5000 as they came.
\<close>

theorem report_keywords_sorted_stable_bounded_witness:
  "length (topKeywords (assemble ''baker'' ''fine'' (replicate 50 (salvage_record ''market'')) [] ''today'')) = 50
   \<and> map volume (topKeywords (assemble ''baker'' ''fine''
         [salvage_record ''market'', fallback_record ''Market growth'', salvage_record ''bakery''] [] ''today''))
       = [12000, 5000, 5000]
   \<and> map keyword (topKeywords (assemble ''baker'' ''fine''
         [salvage_record ''market'', fallback_record ''Market growth'', salvage_record ''bakery''] [] ''today''))
       = [''Market growth'', ''market'', ''bakery'']"
proof -
  have "length (topKeywords (assemble ''baker'' ''fine'' (replicate 50 (salvage_record ''market'')) [] ''today'')) = 50"
    using report_keywords_sorted_stable_bounded
          [of "''baker''" "''fine''" "replicate 50 (salvage_record ''market'')" "[]" "''today''"]
    by simp
  moreover have "map volume (topKeywords (assemble ''baker'' ''fine''
         [salvage_record ''market'', fallback_record ''Market growth'', salvage_record ''bakery''] [] ''today''))
       = [12000, 5000, 5000]"
    by code_simp
  moreover have "map keyword (topKeywords (assemble ''baker'' ''fine''
         [salvage_record ''market'', fallback_record ''Market growth'', salvage_record ''bakery''] [] ''today''))
       = [''Market growth'', ''market'', ''bakery'']"
    by code_simp
  ultimately show ?thesis
    by (intro conjI)
qed

section \<open>Volume, trend and term of the accepted records\<close>

lemma trend_cases: "trend k = Up \<or> trend k = Down \<or> trend k = Stable"
  by (cases "trend k") simp_all

lemma extract_table_positive:
  assumes "unit_source rnd" and "extract_table rnd t = Inr st"
  shows "\<forall>k\<in>set (keywordList st). 0 < volume k"
proof -
  from assms(2) obtain st0 where s0: "structured_table rnd t start = Inr st0"
    and s1: "fuzzy_table rnd t st0 = Inr st"
    by (auto simp: extract_table_def then_do_def split: sum.splits if_splits)
  have "extends_by (\<lambda>k. 0 < volume k) start st0"
    by (rule extends_by_weaken [OF structured_table_extends [OF s0]]) (simp add: accepted_table_def assms(1))
  moreover have "extends_by (\<lambda>k. 0 < volume k) st0 st"
    by (rule extends_by_weaken [OF fuzzy_table_extends [OF s1]]) (simp add: rescanned_table_def assms(1))
  ultimately have "extends_by (\<lambda>k. 0 < volume k) start st"
    by (rule extends_by_trans)
  then show ?thesis
    by (rule extends_by_start)
qed

lemma extract_data_positive:
  assumes "unit_source rnd" and "extract_data rnd t = Inr st"
  shows "\<forall>k\<in>set (keywordList st). 0 < volume k"
proof -
  from assms(2) obtain st0 where s0: "structured_data rnd t start = Inr st0"
    and s1: "salvage_data t st0 = Inr st"
    by (auto simp: extract_data_def then_do_def split: sum.splits)
  have "extends_by (\<lambda>k. 0 < volume k) start st0"
    by (rule extends_by_weaken [OF structured_data_extends [OF s0]]) (simp add: accepted_data_def assms(1))
  moreover have "extends_by (\<lambda>k. 0 < volume k) st0 st"
    by (rule extends_by_weaken [OF salvage_data_extends [OF s1]]) (simp add: salvaged_def)
  ultimately have "extends_by (\<lambda>k. 0 < volume k) start st"
    by (rule extends_by_trans)
  then show ?thesis
    by (rule extends_by_start)
qed

lemma extract_lenient_positive:
  assumes "unit_source rnd" and "extract_lenient rnd t = Inr st"
  shows "\<forall>k\<in>set (keywordList st). 0 < volume k"
proof -
  from assms(2) obtain st0 where s0: "structured_lenient rnd t start = Inr st0"
    and s1: "curated_lenient st0 = Inr st"
    by (auto simp: extract_lenient_def then_do_def split: sum.splits)
  have "extends_by (\<lambda>k. 0 < volume k) start st0"
    by (rule extends_by_weaken [OF structured_lenient_extends [OF s0]]) (simp add: accepted_lenient_def assms(1))
  moreover have "extends_by (\<lambda>k. 0 < volume k) st0 st"
    by (rule extends_by_weaken [OF curated_lenient_extends [OF s1]]) (auto dest: curated_props)
  ultimately have "extends_by (\<lambda>k. 0 < volume k) start st"
    by (rule extends_by_trans)
  then show ?thesis
    by (rule extends_by_start)
qed

lemma extract_generic_positive:
  assumes "unit_source rnd" and "extract_generic rnd t = Inr st"
  shows "\<forall>k\<in>set (keywordList st). 0 < volume k"
proof -
  from assms(2) obtain st0 where s0: "structured_generic rnd t start = Inr st0"
    and s1: "fallback_generic rnd t st0 = Inr st"
    by (rule extract_generic_tiers)
  have "extends_by (\<lambda>k. 0 < volume k) start st0"
    by (rule extends_by_weaken [OF structured_generic_extends [OF s0]]) (simp add: accepted_table_def assms(1))
  moreover have "extends_by (\<lambda>k. 0 < volume k) st0 st"
    by (rule extends_by_weaken [OF fallback_generic_extends [OF s1]]) (simp add: fallen_back_def assms(1))
  ultimately have "extends_by (\<lambda>k. 0 < volume k) start st"
    by (rule extends_by_trans)
  then show ?thesis
    by (rule extends_by_start)
qed

lemma extract_generic_term:
  assumes "extract_generic rnd t = Inr st"
  shows "\<forall>k\<in>set (keywordList st). 1 < length (keyword k)"
proof -
  from assms obtain st0 where s0: "structured_generic rnd t start = Inr st0"
    and s1: "fallback_generic rnd t st0 = Inr st"
    by (rule extract_generic_tiers)
  have "extends_by (\<lambda>k. 1 < length (keyword k)) start st0"
    by (rule extends_by_weaken [OF structured_generic_extends [OF s0]]) (simp add: accepted_table_def)
  moreover have "extends_by (\<lambda>k. 1 < length (keyword k)) st0 st"
    by (rule extends_by_weaken [OF fallback_generic_extends [OF s1]]) (simp add: fallen_back_def)
  ultimately have "extends_by (\<lambda>k. 1 < length (keyword k)) start st"
    by (rule extends_by_trans)
  then show ?thesis
    by (rule extends_by_start)
qed

text \<open>
  Claim C2, as amended. With every draw of \<open>Math.random()\<close> in the unit interval,
  every record that the extraction of one of the four variants returns has a positive
  volume and a trend among \<open>Up\<close>, \<open>Down\<close> and \<open>Stable\<close>. A row that passes the
  row parser's tests on the line and on the term is kept whatever its volume segment
  holds: when the segment gives no number, or none above zero, the row parser draws the
  volume from its range (500 up to 15499 in the \<open>DATA:\<close> and the first
  \<open>DATA_TABLE:\<close> variant, 500 up to 10499 in the second \<open>DATA_TABLE:\<close> variant,
  1000 up to 50999 in the lenient variant), and otherwise the volume is the number read.
  The records of the token salvage carry the volume 5000, those of the curated fallback
  the volume 12000, those of the loose re-scan a draw from 1000 up to 10999 and those of
  the generic-line fallback a draw from 1000 up to 5999. The term is longer than one
  character for the records of the structured row parsers of the \<open>DATA:\<close> and
  \<open>DATA_TABLE:\<close> variants, for those of the generic-line fallback and for the curated
  terms. The row parser of the lenient variant takes the trimmed first segment as the
  term, whatever its length.
\<close>

theorem accepted_records_volume_trend_term:
  assumes "unit_source rnd"
  shows "(\<forall>st. extract_table rnd t = Inr st \<longrightarrow>
            (\<forall>k\<in>set (keywordList st). 0 < volume k \<and> trend k \<in> {Up, Down, Stable}))
       \<and> (\<forall>st. extract_generic rnd t = Inr st \<longrightarrow>
            (\<forall>k\<in>set (keywordList st). 0 < volume k \<and> trend k \<in> {Up, Down, Stable}))
       \<and> (\<forall>st. extract_data rnd t = Inr st \<longrightarrow>
            (\<forall>k\<in>set (keywordList st). 0 < volume k \<and> trend k \<in> {Up, Down, Stable}))
       \<and> (\<forall>st. extract_lenient rnd t = Inr st \<longrightarrow>
            (\<forall>k\<in>set (keywordList st). 0 < volume k \<and> trend k \<in> {Up, Down, Stable}))
       \<and> (\<forall>st. structured_table rnd t start = Inr st \<longrightarrow>
            (\<forall>k\<in>set (keywordList st). 1 < length (keyword k)))
       \<and> (\<forall>st. extract_generic rnd t = Inr st \<longrightarrow>
            (\<forall>k\<in>set (keywordList st). 1 < length (keyword k)))
       \<and> (\<forall>st. structured_data rnd t start = Inr st \<longrightarrow>
            (\<forall>k\<in>set (keywordList st). 1 < length (keyword k)))
       \<and> (\<forall>st st'. curated_lenient st = Inr st' \<longrightarrow>
            (\<exists>new. keywordList st' = keywordList st @ new
                   \<and> (\<forall>k\<in>set new. 1 < length (keyword k) \<and> volume k = 12000)))
       \<and> (\<forall>st st'. salvage_data t st = Inr st' \<longrightarrow>
            (\<exists>new. keywordList st' = keywordList st @ new \<and> (\<forall>k\<in>set new. volume k = 5000)))
       \<and> (\<forall>st st'. fuzzy_table rnd t st = Inr st' \<longrightarrow>
            (\<exists>new. keywordList st' = keywordList st @ new
                   \<and> (\<forall>k\<in>set new. 1000 \<le> volume k \<and> volume k < 11000)))
       \<and> (\<forall>st st'. fallback_generic rnd t st = Inr st' \<longrightarrow>
            (\<exists>new. keywordList st' = keywordList st @ new
                   \<and> (\<forall>k\<in>set new. 1000 \<le> volume k \<and> volume k < 6000)))
       \<and> (\<forall>st line p0 p1 p2 rest.
             2 \<le> count_pipes line
             \<and> map trim (split_char CHR ''|'' line) = p0 # p1 # p2 # rest
             \<and> 1 < length (strip_numbering ''.)'' p0)
             \<and> \<not> js_includes (toLowerCase (strip_numbering ''.)'' p0)) ''term''
             \<and> \<not> js_includes (toLowerCase (strip_numbering ''.)'' p0)) ''keyword'' \<longrightarrow>
             (\<exists>k d. parseRow_table rnd st line = Inr (push k (st\<lparr>draws := d\<rparr>))
                \<and> keyword k = strip_numbering ''.)'' p0
                \<and> (case parseInt (filter is_digit (filter (\<lambda>c. c \<noteq> CHR '','') p1)) of
                      None \<Rightarrow> d = Suc (draws st) \<and> volume k = random_int rnd (draws st) 15000 + 500
                               \<and> 500 \<le> volume k \<and> volume k < 15500
                    | Some v \<Rightarrow>
                        if 0 < v then d = draws st \<and> volume k = v
                        else d = Suc (draws st) \<and> volume k = random_int rnd (draws st) 15000 + 500
                             \<and> 500 \<le> volume k \<and> volume k < 15500)))
       \<and> (\<forall>st line p0 p1 p2 rest.
             2 \<le> count_pipes line
             \<and> map trim (split_char CHR ''|'' line) = p0 # p1 # p2 # rest
             \<and> 1 < length (strip_numbering ''.)'' p0)
             \<and> \<not> js_includes (toLowerCase (strip_numbering ''.)'' p0)) ''term''
             \<and> \<not> js_includes (toLowerCase (strip_numbering ''.)'' p0)) ''keyword'' \<longrightarrow>
             (\<exists>k d. parseRow_generic rnd st line = Inr (push k (st\<lparr>draws := d\<rparr>))
                \<and> keyword k = strip_numbering ''.)'' p0
                \<and> (case parseInt (filter is_digit (filter (\<lambda>c. c \<noteq> CHR '','') p1)) of
                      None \<Rightarrow> d = Suc (draws st) \<and> volume k = random_int rnd (draws st) 10000 + 500
                               \<and> 500 \<le> volume k \<and> volume k < 10500
                    | Some v \<Rightarrow>
                        if 0 < v then d = draws st \<and> volume k = v
                        else d = Suc (draws st) \<and> volume k = random_int rnd (draws st) 10000 + 500
                             \<and> 500 \<le> volume k \<and> volume k < 10500)))
       \<and> (\<forall>st line p0 p1 p2 rest.
             map trim (split_char CHR ''|'' line) = p0 # p1 # p2 # rest
             \<and> 1 < length (strip_numbering ''.'' p0) \<longrightarrow>
             (\<exists>k d. parseRow_data rnd st line = Inr (push k (st\<lparr>draws := d\<rparr>))
                \<and> keyword k = strip_numbering ''.'' p0
                \<and> (case parseInt (filter (\<lambda>c. c \<noteq> CHR '','') p1) of
                      None \<Rightarrow> d = Suc (draws st) \<and> volume k = random_int rnd (draws st) 15000 + 500
                               \<and> 500 \<le> volume k \<and> volume k < 15500
                    | Some v \<Rightarrow>
                        if 0 < v then d = draws st \<and> volume k = v
                        else d = Suc (draws st) \<and> volume k = random_int rnd (draws st) 15000 + 500
                             \<and> 500 \<le> volume k \<and> volume k < 15500)))
       \<and> (\<forall>st line p0 p1 p2 rest.
             split_char CHR ''|'' line = p0 # p1 # p2 # rest
             \<and> \<not> js_includes line ''Keyword|Volume'' \<longrightarrow>
             (\<exists>k d. parseRow_lenient rnd st line = Inr (push k (st\<lparr>draws := d\<rparr>))
                \<and> keyword k = trim p0
                \<and> (case parseInt (filter is_digit p1) of
                      None \<Rightarrow> d = Suc (Suc (draws st)) \<and> volume k = random_int rnd (draws st) 50000 + 1000
                               \<and> 1000 \<le> volume k \<and> volume k < 51000
                    | Some v \<Rightarrow>
                        if v \<noteq> 0 then d = Suc (draws st) \<and> volume k = v \<and> 0 < v
                        else d = Suc (Suc (draws st)) \<and> volume k = random_int rnd (draws st) 50000 + 1000
                             \<and> 1000 \<le> volume k \<and> volume k < 51000)))"
proof -
  have tr: "trend k \<in> {Up, Down, Stable}" for k :: TrendData
    using trend_cases [of k] by simp
  have c1: "\<forall>st. extract_table rnd t = Inr st \<longrightarrow>
            (\<forall>k\<in>set (keywordList st). 0 < volume k \<and> trend k \<in> {Up, Down, Stable})"
    using extract_table_positive [OF assms] tr by blast
  have c2: "\<forall>st. extract_generic rnd t = Inr st \<longrightarrow>
            (\<forall>k\<in>set (keywordList st). 0 < volume k \<and> trend k \<in> {Up, Down, Stable})"
    using extract_generic_positive [OF assms] tr by blast
  have c3: "\<forall>st. extract_data rnd t = Inr st \<longrightarrow>
            (\<forall>k\<in>set (keywordList st). 0 < volume k \<and> trend k \<in> {Up, Down, Stable})"
    using extract_data_positive [OF assms] tr by blast
  have c4: "\<forall>st. extract_lenient rnd t = Inr st \<longrightarrow>
            (\<forall>k\<in>set (keywordList st). 0 < volume k \<and> trend k \<in> {Up, Down, Stable})"
    using extract_lenient_positive [OF assms] tr by blast
  have c5: "\<forall>st. structured_table rnd t start = Inr st \<longrightarrow>
            (\<forall>k\<in>set (keywordList st). 1 < length (keyword k))"
  proof (intro allI impI)
    fix st assume "structured_table rnd t start = Inr st"
    then have "extends_by (\<lambda>k. 1 < length (keyword k)) start st"
      by (rule extends_by_weaken [OF structured_table_extends]) (simp add: accepted_table_def)
    then show "\<forall>k\<in>set (keywordList st). 1 < length (keyword k)"
      by (rule extends_by_start)
  qed
  have c6: "\<forall>st. extract_generic rnd t = Inr st \<longrightarrow>
            (\<forall>k\<in>set (keywordList st). 1 < length (keyword k))"
    using extract_generic_term by blast
  have c7: "\<forall>st. structured_data rnd t start = Inr st \<longrightarrow>
            (\<forall>k\<in>set (keywordList st). 1 < length (keyword k))"
  proof (intro allI impI)
    fix st assume "structured_data rnd t start = Inr st"
    then have "extends_by (\<lambda>k. 1 < length (keyword k)) start st"
      by (rule extends_by_weaken [OF structured_data_extends]) (simp add: accepted_data_def)
    then show "\<forall>k\<in>set (keywordList st). 1 < length (keyword k)"
      by (rule extends_by_start)
  qed
  have c8: "\<forall>st st'. curated_lenient st = Inr st' \<longrightarrow>
            (\<exists>new. keywordList st' = keywordList st @ new
                   \<and> (\<forall>k\<in>set new. 1 < length (keyword k) \<and> volume k = 12000))"
  proof (intro allI impI)
    fix st st' assume "curated_lenient st = Inr st'"
    then have "extends_by (\<lambda>k. 1 < length (keyword k) \<and> volume k = 12000) st st'"
      by (rule extends_by_weaken [OF curated_lenient_extends]) (auto dest: curated_props)
    then show "\<exists>new. keywordList st' = keywordList st @ new
                   \<and> (\<forall>k\<in>set new. 1 < length (keyword k) \<and> volume k = 12000)"
      by (simp add: extends_by_def)
  qed
  have c9: "\<forall>st st'. salvage_data t st = Inr st' \<longrightarrow>
            (\<exists>new. keywordList st' = keywordList st @ new \<and> (\<forall>k\<in>set new. volume k = 5000))"
  proof (intro allI impI)
    fix st st' assume "salvage_data t st = Inr st'"
    then have "extends_by (\<lambda>k. volume k = 5000) st st'"
      by (rule extends_by_weaken [OF salvage_data_extends]) (simp add: salvaged_def)
    then show "\<exists>new. keywordList st' = keywordList st @ new \<and> (\<forall>k\<in>set new. volume k = 5000)"
      by (simp add: extends_by_def)
  qed
  have c10: "\<forall>st st'. fuzzy_table rnd t st = Inr st' \<longrightarrow>
            (\<exists>new. keywordList st' = keywordList st @ new
                   \<and> (\<forall>k\<in>set new. 1000 \<le> volume k \<and> volume k < 11000))"
  proof (intro allI impI)
    fix st st' assume "fuzzy_table rnd t st = Inr st'"
    then have "extends_by (\<lambda>k. 1000 \<le> volume k \<and> volume k < 11000) st st'"
      by (rule extends_by_weaken [OF fuzzy_table_extends]) (simp add: rescanned_table_def assms)
    then show "\<exists>new. keywordList st' = keywordList st @ new
                   \<and> (\<forall>k\<in>set new. 1000 \<le> volume k \<and> volume k < 11000)"
      by (simp add: extends_by_def)
  qed
  have c11: "\<forall>st st'. fallback_generic rnd t st = Inr st' \<longrightarrow>
            (\<exists>new. keywordList st' = keywordList st @ new
                   \<and> (\<forall>k\<in>set new. 1000 \<le> volume k \<and> volume k < 6000))"
  proof (intro allI impI)
    fix st st' assume "fallback_generic rnd t st = Inr st'"
    then have "extends_by (\<lambda>k. 1000 \<le> volume k \<and> volume k < 6000) st st'"
      by (rule extends_by_weaken [OF fallback_generic_extends]) (simp add: fallen_back_def assms)
    then show "\<exists>new. keywordList st' = keywordList st @ new
                   \<and> (\<forall>k\<in>set new. 1000 \<le> volume k \<and> volume k < 6000)"
      by (simp add: extends_by_def)
  qed
  note k1 = parseRow_table_kept [OF assms]
  note k2 = parseRow_generic_kept [OF assms]
  note k3 = parseRow_data_kept [OF assms]
  note k4 = parseRow_lenient_kept [OF assms]
  show ?thesis
    apply (intro conjI)
    apply (rule c1 c2 c3 c4 c5 c6 c7 c8 c9 c10 c11)+
    subgoal by (intro allI impI, elim conjE, rule k1)
    subgoal by (intro allI impI, elim conjE, rule k2)
    subgoal by (intro allI impI, elim conjE, rule k3)
    subgoal by (intro allI impI, elim conjE, rule k4)
    done
qed

text \<open>
  The theorem at the one-row reply, whose records have positive volumes and whose
  structured record has a term of nine characters, and at the row
  \<open>Rye bread | n/a | down\<close>, which is kept with the drawn volume 8000.
\<close>

theorem accepted_records_volume_trend_term_witness:
  "unit_source half
   \<and> (\<exists>st. extract_table half one_row_reply = Inr st
           \<and> (\<forall>k\<in>set (keywordList st). 0 < volume k \<and> trend k \<in> {Up, Down, Stable}))
   \<and> (\<exists>st. structured_table half one_row_reply start = Inr st
           \<and> (\<forall>k\<in>set (keywordList st). 1 < length (keyword k)))
   \<and> (\<exists>k d. parseRow_table half start ''Rye bread | n/a | down'' = Inr (push k (start\<lparr>draws := d\<rparr>))
           \<and> keyword k = ''Rye bread'' \<and> d = 1 \<and> volume k = 8000
           \<and> 500 \<le> volume k \<and> volume k < 15500)"
proof -
  obtain st where st: "extract_table half one_row_reply = Inr st"
    using one_row_extract by blast
  obtain st0 where st0: "structured_table half one_row_reply start = Inr st0"
    using structured_table_total by blast
  note all = accepted_records_volume_trend_term [OF unit_source_half, of one_row_reply]
  from all have "\<forall>st. extract_table half one_row_reply = Inr st \<longrightarrow>
            (\<forall>k\<in>set (keywordList st). 0 < volume k \<and> trend k \<in> {Up, Down, Stable})"
    by (rule conjunct1)
  with st have a: "\<forall>k\<in>set (keywordList st). 0 < volume k \<and> trend k \<in> {Up, Down, Stable}"
    by blast
  from all have "\<forall>st. structured_table half one_row_reply start = Inr st \<longrightarrow>
            (\<forall>k\<in>set (keywordList st). 1 < length (keyword k))"
    by (elim conjE)
  with st0 have b: "\<forall>k\<in>set (keywordList st0). 1 < length (keyword k)"
    by blast
  from all have kept: "\<forall>st line p0 p1 p2 rest.
             2 \<le> count_pipes line
             \<and> map trim (split_char CHR ''|'' line) = p0 # p1 # p2 # rest
             \<and> 1 < length (strip_numbering ''.)'' p0)
             \<and> \<not> js_includes (toLowerCase (strip_numbering ''.)'' p0)) ''term''
             \<and> \<not> js_includes (toLowerCase (strip_numbering ''.)'' p0)) ''keyword'' \<longrightarrow>
             (\<exists>k d. parseRow_table half st line = Inr (push k (st\<lparr>draws := d\<rparr>))
                \<and> keyword k = strip_numbering ''.)'' p0
                \<and> (case parseInt (filter is_digit (filter (\<lambda>c. c \<noteq> CHR '','') p1)) of
                      None \<Rightarrow> d = Suc (draws st) \<and> volume k = random_int half (draws st) 15000 + 500
                               \<and> 500 \<le> volume k \<and> volume k < 15500
                    | Some v \<Rightarrow>
                        if 0 < v then d = draws st \<and> volume k = v
                        else d = Suc (draws st) \<and> volume k = random_int half (draws st) 15000 + 500
                             \<and> 500 \<le> volume k \<and> volume k < 15500))"
    by (elim conjE)
  have row: "2 \<le> count_pipes ''Rye bread | n/a | down''
             \<and> map trim (split_char CHR ''|'' ''Rye bread | n/a | down'') = ''Rye bread'' # ''n/a'' # ''down'' # []
             \<and> 1 < length (strip_numbering ''.)'' ''Rye bread'')
             \<and> \<not> js_includes (toLowerCase (strip_numbering ''.)'' ''Rye bread'')) ''term''
             \<and> \<not> js_includes (toLowerCase (strip_numbering ''.)'' ''Rye bread'')) ''keyword''"
    by code_simp
  have e1: "parseInt (filter is_digit (filter (\<lambda>c. c \<noteq> CHR '','') ''n/a'')) = None"
    by code_simp
  have e2: "strip_numbering ''.)'' ''Rye bread'' = ''Rye bread''"
    by code_simp
  have e3: "random_int half (draws start) 15000 + 500 = 8000"
    by code_simp
  have e4: "Suc (draws start) = 1"
    by (simp add: start_def)
  from kept [rule_format, where st = start and line = "''Rye bread | n/a | down''"
               and ?p0.0 = "''Rye bread''" and ?p1.0 = "''n/a''" and ?p2.0 = "''down''" and rest = "[]", OF row]
  have c: "\<exists>k d. parseRow_table half start ''Rye bread | n/a | down'' = Inr (push k (start\<lparr>draws := d\<rparr>))
           \<and> keyword k = ''Rye bread'' \<and> d = 1 \<and> volume k = 8000
           \<and> 500 \<le> volume k \<and> volume k < 15500"
    by (simp only: e1 e2 e3 e4 option.case)
  from st a have a': "\<exists>st. extract_table half one_row_reply = Inr st
           \<and> (\<forall>k\<in>set (keywordList st). 0 < volume k \<and> trend k \<in> {Up, Down, Stable})"
    by (intro exI [of _ st] conjI)
  from st0 b have b': "\<exists>st. structured_table half one_row_reply start = Inr st
           \<and> (\<forall>k\<in>set (keywordList st). 1 < length (keyword k))"
    by (intro exI [of _ st0] conjI)
  from unit_source_half a' b' c show ?thesis
    by (intro conjI)
qed

text \<open>
  The claim as first stated fails in the lenient variant, whose row parser has no test
  on the term: a row written as a Markdown table row starts with a pipe, so its first
  segment is empty, and the record is accepted with the empty term.
\<close>

theorem lenient_empty_term_counterexample:
  "structured_lenient half markdown_row_reply start =
     Inr \<lparr>keywordList = [\<lparr>keyword = [], volume = 26000, trend = Stable,
                             changePercentage = Finite 0, relevanceScore = 85\<rparr>], draws = 2\<rparr>"
  by code_simp

section \<open>Token salvage and extraction failure\<close>

lemma js_sort_equal_volumes:
  assumes "\<forall>k\<in>set ks. volume k = v"
  shows "js_sort cmp_volume ks = ks"
proof -
  have "set (js_sort cmp_volume ks) = set ks"
    by (simp add: js_sort_volume)
  with assms have "filter (\<lambda>k. volume k = v) (js_sort cmp_volume ks) = js_sort cmp_volume ks"
    by (intro filter_True) simp
  moreover from assms have "filter (\<lambda>k. volume k = v) ks = ks"
    by (intro filter_True) simp
  ultimately show ?thesis
    using js_sort_stable [of v ks] by simp
qed

lemma split_ws_from_piece:
  "(b \<longrightarrow> acc = []) \<Longrightarrow> \<exists>w\<in>set (split_ws_from b acc s). length acc \<le> length w"
proof (induction s arbitrary: b acc)
  case Nil
  show ?case by simp
next
  case (Cons c s)
  show ?case
  proof (cases "is_ws c")
    case True
    from Cons.IH [of True "[]"] Cons.prems True show ?thesis
      by (cases b) auto
  next
    case False
    from Cons.IH [of False "c # acc"]
    obtain w where "w \<in> set (split_ws_from False (c # acc) s)" and "length (c # acc) \<le> length w"
      by auto
    with False show ?thesis
      by (intro bexI [of _ w]) simp_all
  qed
qed

lemma split_ws_from_match:
  "starts_with p s \<Longrightarrow> \<forall>c\<in>set p. \<not> is_ws c \<Longrightarrow> (b \<longrightarrow> acc = []) \<Longrightarrow>
   \<exists>w\<in>set (split_ws_from b acc s). length acc + length p \<le> length w"
proof (induction p arbitrary: s b acc)
  case Nil
  then show ?case
    using split_ws_from_piece [of b acc s] by simp
next
  case (Cons x p)
  from Cons.prems(1) obtain cs where s: "s = x # cs" and rest: "starts_with p cs"
    by (cases s) auto
  from Cons.prems(2) have x: "\<not> is_ws x" and p: "\<forall>c\<in>set p. \<not> is_ws c"
    by simp_all
  from Cons.IH [OF rest p, of False "x # acc"] s x show ?case
    by auto
qed

lemma split_ws_from_includes:
  "js_includes s p \<Longrightarrow> p \<noteq> [] \<Longrightarrow> \<forall>c\<in>set p. \<not> is_ws c \<Longrightarrow> (b \<longrightarrow> acc = []) \<Longrightarrow>
   \<exists>w\<in>set (split_ws_from b acc s). length p \<le> length w"
proof (induction s arbitrary: b acc)
  case Nil
  then show ?case by simp
next
  case (Cons c s)
  show ?case
  proof (cases "starts_with p (c # s)")
    case True
    from split_ws_from_match [OF True Cons.prems(3) Cons.prems(4)]
    obtain w where "w \<in> set (split_ws_from b acc (c # s))" and "length acc + length p \<le> length w"
      by blast
    then show ?thesis
      by (intro bexI [of _ w]) simp_all
  next
    case False
    with Cons.prems(1) have inc: "js_includes s p"
      by simp
    show ?thesis
    proof (cases "is_ws c")
      case True
      from Cons.IH [OF inc Cons.prems(2) Cons.prems(3), of True "[]"] True show ?thesis
        by auto
    next
      case ws: False
      from Cons.IH [OF inc Cons.prems(2) Cons.prems(3), of False "c # acc"] ws show ?thesis
        by auto
    qed
  qed
qed

lemma summary_marker_salvaged:
  assumes "js_includes t ''SUMMARY:''"
  shows "salvage_words t \<noteq> []"
proof -
  have "\<forall>c\<in>set ''SUMMARY:''. \<not> is_ws c"
    by (simp add: is_ws_def)
  with assms have "\<exists>w\<in>set (split_ws_from False [] t). length ''SUMMARY:'' \<le> length w"
    by (intro split_ws_from_includes) simp_all
  then obtain w where "w \<in> set (split_ws t)" and "5 < length w"
    by (auto simp: split_ws_def)
  then have "filter (\<lambda>w. 5 < length w) (split_ws t) \<noteq> []"
    by (auto simp: filter_empty_conv)
  then show ?thesis
    by (simp add: salvage_words_def)
qed

lemma extract_data_no_marker:
  assumes "\<not> js_includes (map canon t) ''DATA:''"
  shows "extract_data rnd t =
           (if salvage_words t = []
            then Inl (Error ''Could not extract structured data from the analysis. Please try a simpler search term.'')
            else Inr (start\<lparr>keywordList := map salvage_record (salvage_words t)\<rparr>))"
proof -
  from assms have "structured_data rnd t start = Inr start"
    by (simp add: structured_data_def keywordSection_of_no_marker)
  then show ?thesis
    by (simp add: extract_data_def then_do_def salvage_data_empty start_def)
qed

lemma salvage_report:
  "topKeywords (assemble prof summ (map salvage_record (salvage_words t)) srcs stamp)
     = map salvage_record (salvage_words t)"
proof -
  have "\<forall>k\<in>set (map salvage_record (salvage_words t)). volume k = 5000"
    by (simp add: salvage_record_def)
  then have "js_sort cmp_volume (map salvage_record (salvage_words t)) = map salvage_record (salvage_words t)"
    by (rule js_sort_equal_volumes)
  then show ?thesis
    using salvage_words_bound [of t] by (simp add: assemble_def)
qed

text \<open>
  Claim C3. Take a run with a usable key and a non-empty reply. In the variant with the
  token salvage, a reply without the marker \<open>DATA:\<close> (in any letter case) reaches the
  salvage: either no word is longer than five characters and the caller gets the error
  "Could not extract structured data ...", or the report holds the salvaged records, one
  per word, between 1 and 10 of them, each with volume 5000, trend \<open>Stable\<close>, change
  0 and a keyword of letters only; a reply that contains \<open>SUMMARY:\<close> always has such a
  word. In both variants with a terminal check, tiers that end with no candidate make the
  run fail with the extraction error of the variant, and no returned report is empty. The
  lenient variant has no terminal check and needs none: its reports hold at least five
  keywords.
\<close>

theorem salvage_or_extraction_failure:
  assumes key: "API_KEY e = Some k" "k \<noteq> ''undefined''" "5 \<le> length k"
    and resp: "generateContent e \<lparr>apiKey = k, subject = prof\<rparr> = Inr resp"
    and body: "resp_text resp = Some t" "t \<noteq> []"
  shows "(\<not> js_includes (map canon t) ''DATA:'' \<longrightarrow>
           (if salvage_words t = []
            then snd (getMarketAnalysis_data e prof) =
                   Inl (Error ''Could not extract structured data from the analysis. Please try a simpler search term.'')
            else \<exists>r. snd (getMarketAnalysis_data e prof) = Inr r
                   \<and> topKeywords r = map salvage_record (salvage_words t)
                   \<and> 1 \<le> length (topKeywords r) \<and> length (topKeywords r) \<le> 10
                   \<and> (\<forall>k\<in>set (topKeywords r).
                         volume k = 5000 \<and> trend k = Stable \<and> changePercentage k = Finite 0
                         \<and> (\<forall>c\<in>set (keyword k). is_alpha c))))
       \<and> (js_includes t ''SUMMARY:'' \<longrightarrow> salvage_words t \<noteq> [])
       \<and> (\<forall>st0. structured_data (random e) t start = Inr st0 \<and> keywordList st0 = []
                 \<and> salvage_words t = [] \<longrightarrow>
             snd (getMarketAnalysis_data e prof) =
               Inl (Error ''Could not extract structured data from the analysis. Please try a simpler search term.''))
       \<and> (\<forall>st0 st1. structured_table (random e) t start = Inr st0
                 \<and> fuzzy_table (random e) t st0 = Inr st1 \<and> keywordList st1 = [] \<longrightarrow>
             snd (getMarketAnalysis_table e prof) =
               Inl (Error ''Could not extract market data. The AI response was not in the expected format.''))
       \<and> (\<forall>r. snd (getMarketAnalysis_data e prof) = Inr r \<longrightarrow> topKeywords r \<noteq> [])
       \<and> (\<forall>r. snd (getMarketAnalysis_table e prof) = Inr r \<longrightarrow> topKeywords r \<noteq> [])
       \<and> (\<forall>r. snd (getMarketAnalysis_lenient e prof) = Inr r \<longrightarrow> 5 \<le> length (topKeywords r))"
proof -
  from key have ok: "\<not> key_unusable (API_KEY e)" and k: "usable_key (API_KEY e) = k"
    by (auto simp: key_unusable_def usable_key_def)
  note data = getMarketAnalysis_data_answered [OF ok resp [folded k] body]
  note table = getMarketAnalysis_table_answered [OF ok resp [folded k] body]
  have part1: "if salvage_words t = []
            then snd (getMarketAnalysis_data e prof) =
                   Inl (Error ''Could not extract structured data from the analysis. Please try a simpler search term.'')
            else \<exists>r. snd (getMarketAnalysis_data e prof) = Inr r
                   \<and> topKeywords r = map salvage_record (salvage_words t)
                   \<and> 1 \<le> length (topKeywords r) \<and> length (topKeywords r) \<le> 10
                   \<and> (\<forall>k\<in>set (topKeywords r).
                         volume k = 5000 \<and> trend k = Stable \<and> changePercentage k = Finite 0
                         \<and> (\<forall>c\<in>set (keyword k). is_alpha c))"
    if none: "\<not> js_includes (map canon t) ''DATA:''"
  proof (cases "salvage_words t = []")
    case True
    with data show ?thesis
      by (simp add: extract_data_no_marker [OF none] catch_data_extraction)
  next
    case False
    have "\<forall>k\<in>set (map salvage_record (salvage_words t)). salvaged k"
      by (auto intro: salvaged_record dest: salvage_words_no_ws)
    then have props: "\<forall>k\<in>set (map salvage_record (salvage_words t)).
                         volume k = 5000 \<and> trend k = Stable \<and> changePercentage k = Finite 0
                         \<and> (\<forall>c\<in>set (keyword k). is_alpha c)"
      unfolding salvaged_def by blast
    from False have "1 \<le> length (salvage_words t)"
      by (cases "salvage_words t") simp_all
    with False data props salvage_words_bound [of t] show ?thesis
      by (simp add: extract_data_no_marker [OF none] salvage_report start_def)
  qed
  have part3: "snd (getMarketAnalysis_data e prof) =
               Inl (Error ''Could not extract structured data from the analysis. Please try a simpler search term.'')"
    if "structured_data (random e) t start = Inr st0 \<and> keywordList st0 = [] \<and> salvage_words t = []" for st0
    using that data
    by (simp add: extract_data_def then_do_def salvage_data_empty catch_data_extraction)
  have part4: "snd (getMarketAnalysis_table e prof) =
               Inl (Error ''Could not extract market data. The AI response was not in the expected format.'')"
    if "structured_table (random e) t start = Inr st0
                 \<and> fuzzy_table (random e) t st0 = Inr st1 \<and> keywordList st1 = []" for st0 st1
    using that table
    by (simp add: extract_table_def then_do_def catch_table_extraction)
  have part5: "topKeywords r \<noteq> []" if "snd (getMarketAnalysis_data e prof) = Inr r" for r
  proof -
    from that data obtain st where st: "extract_data (random e) t = Inr st"
      and r: "r = assemble prof
                    (summary_of (starts_with ''SUMMARY:'') (starts_with ''DATA:'')
                       ''Market analysis complete. Review the trending data below.'' t)
                    (keywordList st) (sources_of ''Market Reference'' resp) (now e)"
      by (cases "extract_data (random e) t") simp_all
    from st have "keywordList st \<noteq> []"
      by (rule extract_data_nonempty)
    then show ?thesis
      unfolding r by (rule assemble_nonempty)
  qed
  have part6: "topKeywords r \<noteq> []" if "snd (getMarketAnalysis_table e prof) = Inr r" for r
  proof -
    from that table obtain st where st: "extract_table (random e) t = Inr st"
      and r: "r = assemble prof
                    (summary_of (starts_with_ci ''SUMMARY:'') (starts_with_ci ''DATA_TABLE:'')
                       ''Analysis complete. Trending data provided based on current market patterns.'' t)
                    (keywordList st) (sources_of ''Market Source'' resp) (now e)"
      by (cases "extract_table (random e) t") simp_all
    from st have "keywordList st \<noteq> []"
      by (rule extract_table_nonempty)
    then show ?thesis
      unfolding r by (rule assemble_nonempty)
  qed
  show ?thesis
  proof (intro conjI impI allI)
    assume "\<not> js_includes (map canon t) ''DATA:''"
    then show "if salvage_words t = []
            then snd (getMarketAnalysis_data e prof) =
                   Inl (Error ''Could not extract structured data from the analysis. Please try a simpler search term.'')
            else \<exists>r. snd (getMarketAnalysis_data e prof) = Inr r
                   \<and> topKeywords r = map salvage_record (salvage_words t)
                   \<and> 1 \<le> length (topKeywords r) \<and> length (topKeywords r) \<le> 10
                   \<and> (\<forall>k\<in>set (topKeywords r).
                         volume k = 5000 \<and> trend k = Stable \<and> changePercentage k = Finite 0
                         \<and> (\<forall>c\<in>set (keyword k). is_alpha c))"
      by (rule part1)
  next
    assume "js_includes t ''SUMMARY:''"
    then show "salvage_words t \<noteq> []"
      by (rule summary_marker_salvaged)
  qed (fact part3 part4 part5 part6 lenient_report_five)+
qed

text \<open>
  The theorem at two replies: a summary without table is salvaged into three words, and
  a reply of two short words fails.
\<close>

theorem salvage_or_extraction_failure_witness:
  "(\<exists>r. snd (getMarketAnalysis_data (sample_env (Some ''secret-key'') (reply ''SUMMARY: Demand is steady.'')) ''baker'') = Inr r
        \<and> map keyword (topKeywords r) = [''SUMMARY'', ''Demand'', ''steady''])
   \<and> snd (getMarketAnalysis_data (sample_env (Some ''secret-key'') (reply ''no data'')) ''baker'')
       = Inl (Error ''Could not extract structured data from the analysis. Please try a simpler search term.'')"
proof -
  let ?e = "\<lambda>t. sample_env (Some ''secret-key'') (reply t)"
  let ?resp = "\<lambda>t. \<lparr>resp_text = Some t, groundingChunks = None\<rparr>"
  have key: "API_KEY (?e t) = Some ''secret-key''" "''secret-key'' \<noteq> ''undefined''" "5 \<le> length ''secret-key''"
    for t
    by (simp_all add: sample_env_def)
  have call: "generateContent (?e t) \<lparr>apiKey = ''secret-key'', subject = ''baker''\<rparr> = Inr (?resp t)" for t
    by (simp add: sample_env_def reply_def)
  have body: "resp_text (?resp t) = Some t" for t
    by simp
  have t1: "''SUMMARY: Demand is steady.'' \<noteq> []" and t2: "''no data'' \<noteq> []"
    by simp_all
  have n1: "\<not> js_includes (map canon ''SUMMARY: Demand is steady.'') ''DATA:''"
    and n2: "\<not> js_includes (map canon ''no data'') ''DATA:''"
    by code_simp+
  have w1: "salvage_words ''SUMMARY: Demand is steady.'' = [''SUMMARY:'', ''Demand'', ''steady.'']"
    and w2: "salvage_words ''no data'' = []"
    by code_simp+
  have k1: "map keyword (map salvage_record [''SUMMARY:'', ''Demand'', ''steady.'']) = [''SUMMARY'', ''Demand'', ''steady'']"
    by code_simp
  have ne: "salvage_words ''SUMMARY: Demand is steady.'' \<noteq> []"
    unfolding w1 by simp
  from salvage_or_extraction_failure [OF key call body t1, THEN conjunct1] n1
  have "if salvage_words ''SUMMARY: Demand is steady.'' = []
        then snd (getMarketAnalysis_data (?e ''SUMMARY: Demand is steady.'') ''baker'') =
               Inl (Error ''Could not extract structured data from the analysis. Please try a simpler search term.'')
        else \<exists>r. snd (getMarketAnalysis_data (?e ''SUMMARY: Demand is steady.'') ''baker'') = Inr r
               \<and> topKeywords r = map salvage_record (salvage_words ''SUMMARY: Demand is steady.'')
               \<and> 1 \<le> length (topKeywords r) \<and> length (topKeywords r) \<le> 10
               \<and> (\<forall>k\<in>set (topKeywords r).
                     volume k = 5000 \<and> trend k = Stable \<and> changePercentage k = Finite 0
                     \<and> (\<forall>c\<in>set (keyword k). is_alpha c))"
    by (rule mp)
  with ne have "\<exists>r. snd (getMarketAnalysis_data (?e ''SUMMARY: Demand is steady.'') ''baker'') = Inr r
               \<and> topKeywords r = map salvage_record (salvage_words ''SUMMARY: Demand is steady.'')
               \<and> 1 \<le> length (topKeywords r) \<and> length (topKeywords r) \<le> 10
               \<and> (\<forall>k\<in>set (topKeywords r).
                     volume k = 5000 \<and> trend k = Stable \<and> changePercentage k = Finite 0
                     \<and> (\<forall>c\<in>set (keyword k). is_alpha c))"
    by (simp only: if_False)
  then obtain r where found: "snd (getMarketAnalysis_data (?e ''SUMMARY: Demand is steady.'') ''baker'') = Inr r
               \<and> topKeywords r = map salvage_record (salvage_words ''SUMMARY: Demand is steady.'')
               \<and> 1 \<le> length (topKeywords r) \<and> length (topKeywords r) \<le> 10
               \<and> (\<forall>k\<in>set (topKeywords r).
                     volume k = 5000 \<and> trend k = Stable \<and> changePercentage k = Finite 0
                     \<and> (\<forall>c\<in>set (keyword k). is_alpha c))" ..
  from found have r: "snd (getMarketAnalysis_data (?e ''SUMMARY: Demand is steady.'') ''baker'') = Inr r"
    by (rule conjunct1)
  from found have top: "topKeywords r = map salvage_record (salvage_words ''SUMMARY: Demand is steady.'')"
    by (elim conjE)
  from top have "map keyword (topKeywords r) = [''SUMMARY'', ''Demand'', ''steady'']"
    by (simp only: w1 k1)
  with r have a: "\<exists>r. snd (getMarketAnalysis_data (?e ''SUMMARY: Demand is steady.'') ''baker'') = Inr r
        \<and> map keyword (topKeywords r) = [''SUMMARY'', ''Demand'', ''steady'']"
    by (intro exI [of _ r] conjI)
  from salvage_or_extraction_failure [OF key call body t2, THEN conjunct1] n2
  have "if salvage_words ''no data'' = []
        then snd (getMarketAnalysis_data (?e ''no data'') ''baker'') =
               Inl (Error ''Could not extract structured data from the analysis. Please try a simpler search term.'')
        else \<exists>r. snd (getMarketAnalysis_data (?e ''no data'') ''baker'') = Inr r
               \<and> topKeywords r = map salvage_record (salvage_words ''no data'')
               \<and> 1 \<le> length (topKeywords r) \<and> length (topKeywords r) \<le> 10
               \<and> (\<forall>k\<in>set (topKeywords r).
                     volume k = 5000 \<and> trend k = Stable \<and> changePercentage k = Finite 0
                     \<and> (\<forall>c\<in>set (keyword k). is_alpha c))"
    by (rule mp)
  with w2 have b: "snd (getMarketAnalysis_data (?e ''no data'') ''baker'')
       = Inl (Error ''Could not extract structured data from the analysis. Please try a simpler search term.'')"
    by (simp only: if_True)
  from a b show ?thesis
    by (rule conjI)
qed

section \<open>Header rows\<close>

lemma header_free_not_header:
  "header_free kw \<Longrightarrow> toLowerCase kw \<noteq> ''term'' \<and> toLowerCase kw \<noteq> ''keyword''"
proof -
  have "js_includes ''term'' ''term''" and "js_includes ''keyword'' ''keyword''"
    by code_simp+
  then show "header_free kw \<Longrightarrow> toLowerCase kw \<noteq> ''term'' \<and> toLowerCase kw \<noteq> ''keyword''"
    unfolding header_free_def by metis
qed

lemma parseRow_table_header:
  assumes "js_index (map trim (split_char CHR ''|'' line)) 0 = Some p0"
    and "\<not> header_free (strip_numbering ''.)'' p0)"
  shows "parseRow_table rnd st line = Inr st"
  using assms
  by (auto simp: parseRow_table_def Let_def on_defined_def js_index_def header_free_def
           split: if_splits)

text \<open>
  Claim C4, as amended. The row parser of the \<open>DATA_TABLE:\<close> variant rejects every
  line whose term segment, numbering stripped, contains \<open>term\<close> or \<open>keyword\<close> in any
  letter case, so no record of its table has such a term, and none equal to one of these
  words; it rejects the line \<open>Keyword|Volume|Trend|Change%\<close>, and so does the lenient
  row parser, which looks for the exact text \<open>Keyword|Volume\<close> in the line.
\<close>

theorem table_rows_header_free:
  "(\<forall>st'. structured_table rnd t start = Inr st' \<longrightarrow>
      (\<forall>k\<in>set (keywordList st').
         \<not> js_includes (toLowerCase (keyword k)) ''term''
         \<and> \<not> js_includes (toLowerCase (keyword k)) ''keyword''
         \<and> toLowerCase (keyword k) \<noteq> ''term'' \<and> toLowerCase (keyword k) \<noteq> ''keyword''))
   \<and> (\<forall>p0. js_index (map trim (split_char CHR ''|'' line)) 0 = Some p0
            \<and> (js_includes (toLowerCase (strip_numbering ''.)'' p0)) ''term''
               \<or> js_includes (toLowerCase (strip_numbering ''.)'' p0)) ''keyword'')
         \<longrightarrow> parseRow_table rnd st line = Inr st)
   \<and> parseRow_table rnd st ''Keyword|Volume|Trend|Change%'' = Inr st
   \<and> parseRow_lenient rnd st ''Keyword|Volume|Trend|Change%'' = Inr st"
proof -
  have rows: "\<forall>k\<in>set (keywordList st').
         \<not> js_includes (toLowerCase (keyword k)) ''term''
         \<and> \<not> js_includes (toLowerCase (keyword k)) ''keyword''
         \<and> toLowerCase (keyword k) \<noteq> ''term'' \<and> toLowerCase (keyword k) \<noteq> ''keyword''"
    if "structured_table rnd t start = Inr st'" for st'
  proof -
    have "extends_by (\<lambda>k. header_free (keyword k)) start st'"
      by (rule extends_by_weaken [OF structured_table_extends [OF that]]) (simp add: accepted_table_def)
    then have "\<forall>k\<in>set (keywordList st'). header_free (keyword k)"
      by (rule extends_by_start)
    then show ?thesis
      using header_free_not_header by (auto simp: header_free_def)
  qed
  have reject: "parseRow_table rnd st line = Inr st"
    if "js_index (map trim (split_char CHR ''|'' line)) 0 = Some p0
            \<and> (js_includes (toLowerCase (strip_numbering ''.)'' p0)) ''term''
               \<or> js_includes (toLowerCase (strip_numbering ''.)'' p0)) ''keyword'')" for p0
    using that by (intro parseRow_table_header [of line p0]) (auto simp: header_free_def)
  have h1: "parseRow_table rnd st ''Keyword|Volume|Trend|Change%'' = Inr st"
    by code_simp
  have h2: "parseRow_lenient rnd st ''Keyword|Volume|Trend|Change%'' = Inr st"
    by code_simp
  from rows reject h1 h2 show ?thesis
    by blast
qed

text \<open>
  The theorem at the one-row reply, and at a numbered line whose term is
  \<open>Search Terms\<close>.
\<close>

theorem table_rows_header_free_witness:
  "(\<exists>st'. structured_table half one_row_reply start = Inr st'
          \<and> (\<forall>k\<in>set (keywordList st'). toLowerCase (keyword k) \<noteq> ''keyword''))
   \<and> js_index (map trim (split_char CHR ''|'' ''2) Search Terms | 900 | Up | 4'')) 0 = Some ''2) Search Terms''
   \<and> js_includes (toLowerCase (strip_numbering ''.)'' ''2) Search Terms'')) ''term''
   \<and> parseRow_table half start ''2) Search Terms | 900 | Up | 4'' = Inr start"
proof -
  note all = table_rows_header_free [of half one_row_reply "''2) Search Terms | 900 | Up | 4''" start]
  obtain st' where st': "structured_table half one_row_reply start = Inr st'"
    using one_row_structured by blast
  from all have "\<forall>st'. structured_table half one_row_reply start = Inr st' \<longrightarrow>
      (\<forall>k\<in>set (keywordList st').
         \<not> js_includes (toLowerCase (keyword k)) ''term''
         \<and> \<not> js_includes (toLowerCase (keyword k)) ''keyword''
         \<and> toLowerCase (keyword k) \<noteq> ''term'' \<and> toLowerCase (keyword k) \<noteq> ''keyword'')"
    by (rule conjunct1)
  with st' have a: "\<forall>k\<in>set (keywordList st'). toLowerCase (keyword k) \<noteq> ''keyword''"
    by blast
  have p0: "js_index (map trim (split_char CHR ''|'' ''2) Search Terms | 900 | Up | 4'')) 0 = Some ''2) Search Terms''"
    by code_simp
  have inc: "js_includes (toLowerCase (strip_numbering ''.)'' ''2) Search Terms'')) ''term''"
    by code_simp
  from all have "\<forall>p0. js_index (map trim (split_char CHR ''|'' ''2) Search Terms | 900 | Up | 4'')) 0 = Some p0
            \<and> (js_includes (toLowerCase (strip_numbering ''.)'' p0)) ''term''
               \<or> js_includes (toLowerCase (strip_numbering ''.)'' p0)) ''keyword'')
         \<longrightarrow> parseRow_table half start ''2) Search Terms | 900 | Up | 4'' = Inr start"
    by (elim conjE)
  with p0 inc have b: "parseRow_table half start ''2) Search Terms | 900 | Up | 4'' = Inr start"
    by blast
  from st' a p0 inc b show ?thesis
    by blast
qed

text \<open>
  The claim as first stated fails in the variant with the marker \<open>DATA:\<close>, whose row
  parser has no header filter: the header line becomes a record with the term
  \<open>Keyword\<close> and a drawn volume.
\<close>

theorem header_row_accepted_counterexample:
  "parseRow_data half start ''Keyword|Volume|Trend|Change%'' =
     Inr \<lparr>keywordList = [\<lparr>keyword = ''Keyword'', volume = 8000, trend = Stable,
                             changePercentage = Finite 0, relevanceScore = 100\<rparr>], draws = 1\<rparr>"
  by code_simp

text \<open>
  The filter of the lenient row parser is the exact text only: the same header in lower
  case becomes a record.
\<close>

lemma lenient_lower_case_header:
  "parseRow_lenient half start ''keyword|volume|trend|change'' =
     Inr \<lparr>keywordList = [\<lparr>keyword = ''keyword'', volume = 26000, trend = Stable,
                             changePercentage = Finite 0, relevanceScore = 85\<rparr>], draws = 2\<rparr>"
  by code_simp

section \<open>The row parser is total\<close>

lemma parseRow_empty_line:
  "parseRow_table rnd st [] = Inr st" "parseRow_data rnd st [] = Inr st" "parseRow_lenient rnd st [] = Inr st"
  by (simp_all add: parseRow_table_def parseRow_data_def parseRow_lenient_def count_pipes_def split_char_def)

text \<open>
  Claim C5. On every line each row parser returns a state and throws nothing: the reads
  of \<open>parts[0]\<close>, \<open>parts[1]\<close> and \<open>parts[2]\<close> are guarded by the length check and
  \<open>parts[3]\<close> is read with \<open>?.\<close> or handed to \<open>parseFloat\<close>. The empty line is
  rejected: the state is unchanged. No tier throws, and the only error that the
  extraction as a whole can end with is the extraction failure of the variant.
\<close>

theorem row_parser_never_raises:
  "(\<exists>st'. parseRow_table rnd st line = Inr st')
   \<and> (\<exists>st'. parseRow_data rnd st line = Inr st')
   \<and> (\<exists>st'. parseRow_lenient rnd st line = Inr st')
   \<and> parseRow_table rnd st [] = Inr st
   \<and> parseRow_data rnd st [] = Inr st
   \<and> parseRow_lenient rnd st [] = Inr st
   \<and> (\<exists>st'. structured_table rnd t st = Inr st')
   \<and> (\<exists>st'. fuzzy_table rnd t st = Inr st')
   \<and> (\<exists>st'. structured_data rnd t st = Inr st')
   \<and> (\<exists>st'. structured_lenient rnd t st = Inr st')
   \<and> (\<exists>st'. extract_lenient rnd t = Inr st')
   \<and> (extract_table rnd t
         = Inl (Error ''Could not extract market data. The AI response was not in the expected format.'')
        \<or> (\<exists>st'. extract_table rnd t = Inr st'))
   \<and> (extract_data rnd t
         = Inl (Error ''Could not extract structured data from the analysis. Please try a simpler search term.'')
        \<or> (\<exists>st'. extract_data rnd t = Inr st'))"
proof -
  have lenient: "\<exists>st'. extract_lenient rnd t = Inr st'"
  proof -
    obtain st0 where "structured_lenient rnd t start = Inr st0"
      using structured_lenient_total by blast
    then show ?thesis
      by (simp add: extract_lenient_def then_do_def curated_lenient_result)
  qed
  have table: "extract_table rnd t
         = Inl (Error ''Could not extract market data. The AI response was not in the expected format.'')
        \<or> (\<exists>st'. extract_table rnd t = Inr st')"
    by (rule extract_table_cases [of rnd t]) simp_all
  have data: "extract_data rnd t
         = Inl (Error ''Could not extract structured data from the analysis. Please try a simpler search term.'')
        \<or> (\<exists>st'. extract_data rnd t = Inr st')"
    by (rule extract_data_cases [of rnd t]) simp_all
  show ?thesis
    using parseRow_table_total [of rnd st line] parseRow_data_total [of rnd st line]
      parseRow_lenient_total [of rnd st line] parseRow_empty_line [of rnd st]
      structured_table_total [of rnd t st] fuzzy_table_total [of rnd t st]
      structured_data_total [of rnd t st] structured_lenient_total [of rnd t st]
      lenient table data
    by (intro conjI)
qed

section \<open>Worked rows\<close>

text \<open>
  Claim C6. On \<open>Sourdough | 45,000 | Up | 25%\<close> the row parser gives the term
  \<open>Sourdough\<close>, volume 45000, trend \<open>Up\<close> and change 25; on
  \<open>1. Local Coffee | 12500 | Stable | -3\<close> it strips the numbering and gives the term
  \<open>Local Coffee\<close> with change -3. Both row parsers with these two lines, on an empty
  list, whatever the source of randomness.
\<close>

theorem parseRow_examples:
  "parseRow_table rnd start ''Sourdough | 45,000 | Up | 25%'' =
     Inr \<lparr>keywordList = [\<lparr>keyword = ''Sourdough'', volume = 45000, trend = Up,
                             changePercentage = Finite 25, relevanceScore = 100\<rparr>], draws = 0\<rparr>
   \<and> parseRow_table rnd start ''1. Local Coffee | 12500 | Stable | -3'' =
     Inr \<lparr>keywordList = [\<lparr>keyword = ''Local Coffee'', volume = 12500, trend = Stable,
                             changePercentage = Finite (- 3), relevanceScore = 100\<rparr>], draws = 0\<rparr>
   \<and> parseRow_data rnd start ''Sourdough | 45,000 | Up | 25%'' =
     Inr \<lparr>keywordList = [\<lparr>keyword = ''Sourdough'', volume = 45000, trend = Up,
                             changePercentage = Finite 25, relevanceScore = 100\<rparr>], draws = 0\<rparr>
   \<and> parseRow_data rnd start ''1. Local Coffee | 12500 | Stable | -3'' =
     Inr \<lparr>keywordList = [\<lparr>keyword = ''Local Coffee'', volume = 12500, trend = Stable,
                             changePercentage = Finite (- 3), relevanceScore = 100\<rparr>], draws = 0\<rparr>"
  by code_simp

section \<open>The loose re-scan\<close>

lemma fuzzyRow_table_plain_line:
  assumes "\<forall>c\<in>set line. c \<noteq> CHR ''-'' \<and> c \<noteq> CHR ''|''"
  shows "fuzzyRow_table rnd st line = Inr st"
proof -
  from assms have "split_where (\<lambda>c. c = CHR ''-'' \<or> c = CHR ''|'') line = [line]"
    by (intro split_where_no_separator) simp
  then show ?thesis
    by (simp add: fuzzyRow_table_def)
qed

lemma fuzzyRow_table_accepts:
  assumes "map trim (split_where (\<lambda>c. c = CHR ''-'' \<or> c = CHR ''|'') line) = p0 # p1 # rest"
    and "2 < length p0" and "length p0 < 50"
    and "\<not> js_includes (toLowerCase (strip_numbering ''.)'' p0)) ''summary''"
    and "\<not> js_includes (toLowerCase (strip_numbering ''.)'' p0)) ''data''"
  shows "fuzzyRow_table rnd s line =
           Inr (push \<lparr>keyword = strip_numbering ''.)'' p0,
                       volume = random_int rnd (draws s) 10000 + 1000,
                       trend = Stable, changePercentage = Finite 0, relevanceScore = 50\<rparr>
                  (s\<lparr>draws := Suc (draws s)\<rparr>))"
  using assms by (simp add: fuzzyRow_table_def Let_def on_defined_def js_index_def)

lemma fuzzyRow_table_marker:
  assumes "map trim (split_where (\<lambda>c. c = CHR ''-'' \<or> c = CHR ''|'') line) = p0 # rest"
    and "js_includes (toLowerCase (strip_numbering ''.)'' p0)) ''summary''
         \<or> js_includes (toLowerCase (strip_numbering ''.)'' p0)) ''data''"
  shows "fuzzyRow_table rnd s line = Inr s"
  using assms by (auto simp: fuzzyRow_table_def Let_def on_defined_def js_index_def)

lemma prose_structured:
  "structured_table half prose_reply start
     = Inr \<lparr>keywordList = [\<lparr>keyword = ''Sourdough'', volume = 45000, trend = Up,
                             changePercentage = Finite 25, relevanceScore = 100\<rparr>], draws = 0\<rparr>"
  by code_simp

lemma prose_rescan:
  "forEach (fuzzyRow_table half) (split_char CHR 0x0A prose_reply)
     \<lparr>keywordList = [\<lparr>keyword = ''Sourdough'', volume = 45000, trend = Up,
                       changePercentage = Finite 25, relevanceScore = 100\<rparr>], draws = 0\<rparr>
     = Inr \<lparr>keywordList = [\<lparr>keyword = ''Sourdough'', volume = 45000, trend = Up,
                             changePercentage = Finite 25, relevanceScore = 100\<rparr>,
                           \<lparr>keyword = ''Sourdough'', volume = 6000, trend = Stable,
                             changePercentage = Finite 0, relevanceScore = 50\<rparr>,
                           \<lparr>keyword = ''Rye bread'', volume = 6000, trend = Stable,
                             changePercentage = Finite 0, relevanceScore = 50\<rparr>], draws = 2\<rparr>"
  by code_simp

text \<open>
  Claim C7. After the structured tier, the re-scan always returns a state. Its list is
  the list of the structured tier followed by new records, each with trend \<open>Stable\<close>,
  relevance 50 and a volume from 1000 up to 10999, so the count never falls below the
  structured tier's. With fewer than five candidates it is the loop over all lines of the
  whole text; with five or more nothing changes. A line is split at every hyphen and
  every pipe, and the segments are trimmed; when there are at least two segments, the
  first is longer than 2 and shorter than 50 characters, and without its numbering it
  contains neither \<open>summary\<close> nor \<open>data\<close>, the line is accepted: one draw is taken and
  one record is appended, with the first segment without its numbering as the term, the
  drawn volume, trend \<open>Stable\<close>, change 0 and relevance 50. A line whose first segment
  names a section marker adds nothing, and neither does a line without hyphen and pipe.
  When the structured tier found a candidate, the extraction succeeds with the state of
  the re-scan.
\<close>

theorem rescan_appends_to_structured:
  assumes "unit_source rnd" and "structured_table rnd t start = Inr st0"
  shows "\<exists>st1 new.
           fuzzy_table rnd t st0 = Inr st1
           \<and> keywordList st1 = keywordList st0 @ new
           \<and> (\<forall>k\<in>set new. trend k = Stable \<and> relevanceScore k = 50
                            \<and> 1000 \<le> volume k \<and> volume k < 11000)
           \<and> length (keywordList st0) \<le> length (keywordList st1)
           \<and> (length (keywordList st0) < 5 \<longrightarrow>
                forEach (fuzzyRow_table rnd) (split_char CHR 0x0A t) st0 = Inr st1)
           \<and> (5 \<le> length (keywordList st0) \<longrightarrow> st1 = st0)
           \<and> (keywordList st0 \<noteq> [] \<longrightarrow> extract_table rnd t = Inr st1)
           \<and> (\<forall>line s. (\<forall>c\<in>set line. c \<noteq> CHR ''-'' \<and> c \<noteq> CHR ''|'')
                        \<longrightarrow> fuzzyRow_table rnd s line = Inr s)
           \<and> (\<forall>line s p0 p1 rest.
                 map trim (split_where (\<lambda>c. c = CHR ''-'' \<or> c = CHR ''|'') line) = p0 # p1 # rest
                 \<and> 2 < length p0 \<and> length p0 < 50
                 \<and> \<not> js_includes (toLowerCase (strip_numbering ''.)'' p0)) ''summary''
                 \<and> \<not> js_includes (toLowerCase (strip_numbering ''.)'' p0)) ''data'' \<longrightarrow>
                 fuzzyRow_table rnd s line =
                   Inr (push \<lparr>keyword = strip_numbering ''.)'' p0,
                               volume = random_int rnd (draws s) 10000 + 1000,
                               trend = Stable, changePercentage = Finite 0, relevanceScore = 50\<rparr>
                          (s\<lparr>draws := Suc (draws s)\<rparr>))
                 \<and> 1000 \<le> random_int rnd (draws s) 10000 + 1000
                 \<and> random_int rnd (draws s) 10000 + 1000 < 11000)
           \<and> (\<forall>line s p0 rest.
                 map trim (split_where (\<lambda>c. c = CHR ''-'' \<or> c = CHR ''|'') line) = p0 # rest
                 \<and> (js_includes (toLowerCase (strip_numbering ''.)'' p0)) ''summary''
                    \<or> js_includes (toLowerCase (strip_numbering ''.)'' p0)) ''data'') \<longrightarrow>
                 fuzzyRow_table rnd s line = Inr s)"
proof -
  obtain st1 where s1: "fuzzy_table rnd t st0 = Inr st1"
    using fuzzy_table_total by blast
  from fuzzy_table_extends [OF s1] assms(1)
  obtain new where new: "keywordList st1 = keywordList st0 @ new"
    and props: "\<forall>k\<in>set new. trend k = Stable \<and> relevanceScore k = 50
                            \<and> 1000 \<le> volume k \<and> volume k < 11000"
    unfolding extends_by_def rescanned_table_def by blast
  from new have len: "length (keywordList st0) \<le> length (keywordList st1)"
    by simp
  from s1 have gate: "length (keywordList st0) < 5 \<longrightarrow>
                forEach (fuzzyRow_table rnd) (split_char CHR 0x0A t) st0 = Inr st1"
    and skip: "5 \<le> length (keywordList st0) \<longrightarrow> st1 = st0"
    by (auto simp: fuzzy_table_def split: if_splits)
  from new have "keywordList st0 \<noteq> [] \<longrightarrow> keywordList st1 \<noteq> []"
    by simp
  with assms(2) s1 have whole: "keywordList st0 \<noteq> [] \<longrightarrow> extract_table rnd t = Inr st1"
    by (simp add: extract_table_def then_do_def)
  have plain: "\<forall>line s. (\<forall>c\<in>set line. c \<noteq> CHR ''-'' \<and> c \<noteq> CHR ''|'')
                        \<longrightarrow> fuzzyRow_table rnd s line = Inr s"
    by (simp add: fuzzyRow_table_plain_line)
  have accepts: "\<forall>line s p0 p1 rest.
                 map trim (split_where (\<lambda>c. c = CHR ''-'' \<or> c = CHR ''|'') line) = p0 # p1 # rest
                 \<and> 2 < length p0 \<and> length p0 < 50
                 \<and> \<not> js_includes (toLowerCase (strip_numbering ''.)'' p0)) ''summary''
                 \<and> \<not> js_includes (toLowerCase (strip_numbering ''.)'' p0)) ''data'' \<longrightarrow>
                 fuzzyRow_table rnd s line =
                   Inr (push \<lparr>keyword = strip_numbering ''.)'' p0,
                               volume = random_int rnd (draws s) 10000 + 1000,
                               trend = Stable, changePercentage = Finite 0, relevanceScore = 50\<rparr>
                          (s\<lparr>draws := Suc (draws s)\<rparr>))
                 \<and> 1000 \<le> random_int rnd (draws s) 10000 + 1000
                 \<and> random_int rnd (draws s) 10000 + 1000 < 11000"
  proof (intro allI impI, elim conjE, intro conjI)
    fix line s p0 p1 rest
    assume "map trim (split_where (\<lambda>c. c = CHR ''-'' \<or> c = CHR ''|'') line) = p0 # p1 # rest"
      and "2 < length p0" and "length p0 < 50"
      and "\<not> js_includes (toLowerCase (strip_numbering ''.)'' p0)) ''summary''"
      and "\<not> js_includes (toLowerCase (strip_numbering ''.)'' p0)) ''data''"
    then show "fuzzyRow_table rnd s line =
                   Inr (push \<lparr>keyword = strip_numbering ''.)'' p0,
                               volume = random_int rnd (draws s) 10000 + 1000,
                               trend = Stable, changePercentage = Finite 0, relevanceScore = 50\<rparr>
                          (s\<lparr>draws := Suc (draws s)\<rparr>))"
      by (rule fuzzyRow_table_accepts)
    show "1000 \<le> random_int rnd (draws s) 10000 + 1000"
      using random_int_bounds(1) [OF assms(1), of 10000 "draws s"] by simp
    show "random_int rnd (draws s) 10000 + 1000 < 11000"
      using random_int_bounds(2) [OF assms(1), of 10000 "draws s"] by simp
  qed
  have marker: "\<forall>line s p0 rest.
                 map trim (split_where (\<lambda>c. c = CHR ''-'' \<or> c = CHR ''|'') line) = p0 # rest
                 \<and> (js_includes (toLowerCase (strip_numbering ''.)'' p0)) ''summary''
                    \<or> js_includes (toLowerCase (strip_numbering ''.)'' p0)) ''data'') \<longrightarrow>
                 fuzzyRow_table rnd s line = Inr s"
    by (intro allI impI, elim conjE, rule fuzzyRow_table_marker)
  from s1 new props len gate skip whole plain accepts marker show ?thesis
    by (intro exI [of _ st1] exI [of _ new] conjI)
qed

text \<open>
  The theorem at a reply with one table row and one line of prose: the structured tier
  finds the row, and the re-scan over the whole text appends one record for the table
  row, split at its pipes, and one for the line of prose, split at its hyphen.
\<close>

theorem rescan_appends_to_structured_witness:
  "unit_source half
   \<and> structured_table half prose_reply start
       = Inr \<lparr>keywordList = [\<lparr>keyword = ''Sourdough'', volume = 45000, trend = Up,
                               changePercentage = Finite 25, relevanceScore = 100\<rparr>], draws = 0\<rparr>
   \<and> extract_table half prose_reply
       = Inr \<lparr>keywordList = [\<lparr>keyword = ''Sourdough'', volume = 45000, trend = Up,
                               changePercentage = Finite 25, relevanceScore = 100\<rparr>,
                             \<lparr>keyword = ''Sourdough'', volume = 6000, trend = Stable,
                               changePercentage = Finite 0, relevanceScore = 50\<rparr>,
                             \<lparr>keyword = ''Rye bread'', volume = 6000, trend = Stable,
                               changePercentage = Finite 0, relevanceScore = 50\<rparr>], draws = 2\<rparr>
   \<and> fuzzyRow_table half start ''Rye bread - a steady seller''
       = Inr \<lparr>keywordList = [\<lparr>keyword = ''Rye bread'', volume = 6000, trend = Stable,
                               changePercentage = Finite 0, relevanceScore = 50\<rparr>], draws = 1\<rparr>"
proof -
  let ?st0 = "\<lparr>keywordList = [\<lparr>keyword = ''Sourdough'', volume = 45000, trend = Up,
                               changePercentage = Finite 25, relevanceScore = 100\<rparr>], draws = 0\<rparr>"
  have small: "length (keywordList ?st0) < 5" and some: "keywordList ?st0 \<noteq> []"
    by simp_all
  from rescan_appends_to_structured [OF unit_source_half prose_structured]
  obtain st1 where loop: "length (keywordList ?st0) < 5 \<longrightarrow>
                forEach (fuzzyRow_table half) (split_char CHR 0x0A prose_reply) ?st0 = Inr st1"
    and whole: "keywordList ?st0 \<noteq> [] \<longrightarrow> extract_table half prose_reply = Inr st1"
    and accepts: "\<forall>line s p0 p1 rest.
                 map trim (split_where (\<lambda>c. c = CHR ''-'' \<or> c = CHR ''|'') line) = p0 # p1 # rest
                 \<and> 2 < length p0 \<and> length p0 < 50
                 \<and> \<not> js_includes (toLowerCase (strip_numbering ''.)'' p0)) ''summary''
                 \<and> \<not> js_includes (toLowerCase (strip_numbering ''.)'' p0)) ''data'' \<longrightarrow>
                 fuzzyRow_table half s line =
                   Inr (push \<lparr>keyword = strip_numbering ''.)'' p0,
                               volume = random_int half (draws s) 10000 + 1000,
                               trend = Stable, changePercentage = Finite 0, relevanceScore = 50\<rparr>
                          (s\<lparr>draws := Suc (draws s)\<rparr>))
                 \<and> 1000 \<le> random_int half (draws s) 10000 + 1000
                 \<and> random_int half (draws s) 10000 + 1000 < 11000"
    by (elim exE conjE)
  from loop small have f1: "forEach (fuzzyRow_table half) (split_char CHR 0x0A prose_reply) ?st0 = Inr st1"
    by (rule mp)
  have "(Inr st1 :: thrown + pstate)
          = Inr \<lparr>keywordList = [\<lparr>keyword = ''Sourdough'', volume = 45000, trend = Up,
                               changePercentage = Finite 25, relevanceScore = 100\<rparr>,
                             \<lparr>keyword = ''Sourdough'', volume = 6000, trend = Stable,
                               changePercentage = Finite 0, relevanceScore = 50\<rparr>,
                             \<lparr>keyword = ''Rye bread'', volume = 6000, trend = Stable,
                               changePercentage = Finite 0, relevanceScore = 50\<rparr>], draws = 2\<rparr>"
    by (rule trans [OF f1 [symmetric] prose_rescan])
  moreover from whole some have "extract_table half prose_reply = Inr st1"
    by (rule mp)
  ultimately have run: "extract_table half prose_reply
       = Inr \<lparr>keywordList = [\<lparr>keyword = ''Sourdough'', volume = 45000, trend = Up,
                               changePercentage = Finite 25, relevanceScore = 100\<rparr>,
                             \<lparr>keyword = ''Sourdough'', volume = 6000, trend = Stable,
                               changePercentage = Finite 0, relevanceScore = 50\<rparr>,
                             \<lparr>keyword = ''Rye bread'', volume = 6000, trend = Stable,
                               changePercentage = Finite 0, relevanceScore = 50\<rparr>], draws = 2\<rparr>"
    by (rule trans [rotated])
  have row: "map trim (split_where (\<lambda>c. c = CHR ''-'' \<or> c = CHR ''|'') ''Rye bread - a steady seller'')
               = ''Rye bread'' # ''a steady seller'' # []
             \<and> 2 < length ''Rye bread'' \<and> length ''Rye bread'' < 50
             \<and> \<not> js_includes (toLowerCase (strip_numbering ''.)'' ''Rye bread'')) ''summary''
             \<and> \<not> js_includes (toLowerCase (strip_numbering ''.)'' ''Rye bread'')) ''data''"
    by code_simp
  have e: "push \<lparr>keyword = strip_numbering ''.)'' ''Rye bread'',
                  volume = random_int half (draws start) 10000 + 1000,
                  trend = Stable, changePercentage = Finite 0, relevanceScore = 50\<rparr>
             (start\<lparr>draws := Suc (draws start)\<rparr>)
           = \<lparr>keywordList = [\<lparr>keyword = ''Rye bread'', volume = 6000, trend = Stable,
                               changePercentage = Finite 0, relevanceScore = 50\<rparr>], draws = 1\<rparr>"
    by code_simp
  from accepts [rule_format, where s = start and line = "''Rye bread - a steady seller''"
                  and ?p0.0 = "''Rye bread''" and ?p1.0 = "''a steady seller''" and rest = "[]", OF row]
  have line: "fuzzyRow_table half start ''Rye bread - a steady seller''
       = Inr \<lparr>keywordList = [\<lparr>keyword = ''Rye bread'', volume = 6000, trend = Stable,
                               changePercentage = Finite 0, relevanceScore = 50\<rparr>], draws = 1\<rparr>"
    by (simp only: e)
  from unit_source_half prose_structured run line show ?thesis
    by (intro conjI)
qed

section \<open>The curated fallback\<close>

text \<open>
  Claim C8, as amended. With fewer than five candidates the curated fallback appends,
  in the order of the fixed list, every one of its five terms that is not yet the keyword
  of a candidate, each with the preset metrics; it does not stop when the count reaches
  five. Afterwards there are at least five candidates and at most five more than before.
  With five or more candidates it changes nothing.
\<close>

theorem curated_fallback_adds_missing_terms:
  "(length (keywordList st) < 5 \<longrightarrow>
      (\<exists>st'. curated_lenient st = Inr st'
         \<and> keywordList st' = keywordList st
              @ map fallback_record (filter (\<lambda>w. w \<notin> keyword ` set (keywordList st)) fallbackWords)
         \<and> 5 \<le> length (keywordList st')
         \<and> length (keywordList st') \<le> length (keywordList st) + 5))
   \<and> (5 \<le> length (keywordList st) \<longrightarrow> curated_lenient st = Inr st)"
proof -
  have "length (filter (\<lambda>w. w \<notin> keyword ` set (keywordList st)) fallbackWords) \<le> 5"
    using length_filter_le [of "\<lambda>w. w \<notin> keyword ` set (keywordList st)" fallbackWords]
    by (simp add: length_fallbackWords)
  then show ?thesis
    using missing_fallback_count [of "keywordList st"]
    by (simp add: curated_lenient_result)
qed

text \<open>
  The theorem at the four candidates of the four-row reply.
\<close>

theorem curated_fallback_adds_missing_terms_witness:
  "length (keywordList four_candidates) < 5
   \<and> (\<exists>st'. curated_lenient four_candidates = Inr st' \<and> 5 \<le> length (keywordList st'))"
proof -
  have small: "length (keywordList four_candidates) < 5"
    by (simp add: four_candidates_def)
  with curated_fallback_adds_missing_terms [of four_candidates] show ?thesis
    by blast
qed

text \<open>
  The claim as first stated, an injection that lasts until the count is five, fails at
  the four-row reply: the structured tier reads four candidates, one more term would do,
  and all five are appended, nine candidates in all.
\<close>

theorem curated_overshoots_counterexample:
  "length (keywordList four_candidates) = 4
   \<and> structured_lenient half four_row_reply start = Inr four_candidates
   \<and> extract_lenient half four_row_reply =
       Inr (four_candidates\<lparr>keywordList := keywordList four_candidates @ map fallback_record fallbackWords\<rparr>)
   \<and> length (keywordList four_candidates @ map fallback_record fallbackWords) = 9"
  by code_simp

section \<open>The access key\<close>

text \<open>
  Claim C9, as amended. In the variant with the marker \<open>DATA:\<close> and in both variants
  with the marker \<open>DATA_TABLE:\<close>, a key that is absent, equal to \<open>undefined\<close> or
  shorter than five characters makes the run fail with an error before the client is
  built: the client is never called, so no request is sent. Each message begins with
  \<open>API Key is missing.\<close>; two of them name the variable \<open>API_KEY\<close>, the one of the
  second \<open>DATA_TABLE:\<close> variant speaks of the key in the environment variables. The
  lenient variant has no such check: it calls the client with the key, or with the empty
  string when the key is absent, and its outcome is what the rest of the function makes
  of the settled call. When the key it passes is not empty, the request is sent.
\<close>

theorem strict_variants_fail_fast:
  assumes "API_KEY e = None \<or> (\<exists>s. API_KEY e = Some s \<and> (s = ''undefined'' \<or> length s < 5))"
  shows "getMarketAnalysis_table e prof =
           ([], Inl (Error ''API Key is missing. Please ensure 'API_KEY' is correctly set in your Vercel Environment Variables.''))
       \<and> getMarketAnalysis_generic json e prof =
           ([], Inl (Error ''API Key is missing. Please ensure your key is correctly set in your environment variables.''))
       \<and> getMarketAnalysis_data e prof =
           ([], Inl (Error ''API Key is missing. Please ensure you have added 'API_KEY' to your Vercel Environment Variables.''))
       \<and> js_includes ''API Key is missing. Please ensure 'API_KEY' is correctly set in your Vercel Environment Variables.'' ''API_KEY''
       \<and> js_includes ''API Key is missing. Please ensure you have added 'API_KEY' to your Vercel Environment Variables.'' ''API_KEY''
       \<and> starts_with ''API Key is missing.'' ''API Key is missing. Please ensure your key is correctly set in your environment variables.''
       \<and> sent_requests (fst (getMarketAnalysis_table e prof)) = []
       \<and> sent_requests (fst (getMarketAnalysis_generic json e prof)) = []
       \<and> sent_requests (fst (getMarketAnalysis_data e prof)) = []
       \<and> fst (getMarketAnalysis_lenient e prof) = [\<lparr>apiKey = usable_key (API_KEY e), subject = prof\<rparr>]
       \<and> snd (getMarketAnalysis_lenient e prof)
           = analyse_lenient e prof (generateContent e \<lparr>apiKey = usable_key (API_KEY e), subject = prof\<rparr>)
       \<and> (usable_key (API_KEY e) \<noteq> [] \<longrightarrow>
            sent_requests (fst (getMarketAnalysis_lenient e prof))
              = [\<lparr>apiKey = usable_key (API_KEY e), subject = prof\<rparr>])"
proof -
  from assms have bad: "key_unusable (API_KEY e)"
    by (auto simp: key_unusable_def)
  have names: "js_includes ''API Key is missing. Please ensure 'API_KEY' is correctly set in your Vercel Environment Variables.'' ''API_KEY''"
    "js_includes ''API Key is missing. Please ensure you have added 'API_KEY' to your Vercel Environment Variables.'' ''API_KEY''"
    "starts_with ''API Key is missing.'' ''API Key is missing. Please ensure your key is correctly set in your environment variables.''"
    by code_simp+
  from bad names show ?thesis
    by (simp add: getMarketAnalysis_table_def getMarketAnalysis_generic_def getMarketAnalysis_data_def
                  getMarketAnalysis_lenient_def missing_key_table_def missing_key_generic_def
                  missing_key_data_def sent_requests_def Let_def)
qed

text \<open>
  The theorem at a key of three characters: the three checking variants call nothing,
  and the lenient variant sends its request with that key.
\<close>

theorem strict_variants_fail_fast_witness:
  "API_KEY (sample_env (Some ''abc'') refuse) = Some ''abc'' \<and> length ''abc'' < 5
   \<and> fst (getMarketAnalysis_table (sample_env (Some ''abc'') refuse) ''baker'') = []
   \<and> fst (getMarketAnalysis_generic (\<lambda>m. NotJSON) (sample_env (Some ''abc'') refuse) ''baker'') = []
   \<and> fst (getMarketAnalysis_data (sample_env (Some ''abc'') refuse) ''baker'') = []
   \<and> sent_requests (fst (getMarketAnalysis_lenient (sample_env (Some ''abc'') refuse) ''baker''))
       = [\<lparr>apiKey = ''abc'', subject = ''baker''\<rparr>]"
proof -
  have key: "API_KEY (sample_env (Some ''abc'') refuse) = Some ''abc''"
    by (simp add: sample_env_def)
  then have "API_KEY (sample_env (Some ''abc'') refuse) = None
             \<or> (\<exists>s. API_KEY (sample_env (Some ''abc'') refuse) = Some s \<and> (s = ''undefined'' \<or> length s < 5))"
    by simp
  from strict_variants_fail_fast [OF this, of "''baker''" "\<lambda>m. NotJSON"] key show ?thesis
    by (simp add: usable_key_def sent_requests_def)
qed

text \<open>
  The claim as first stated fails in the lenient variant at a malformed key: with the
  key \<open>undefined\<close> the request is sent, and the caller gets what the service rejected
  the call with.
\<close>

theorem lenient_calls_with_malformed_key_counterexample:
  "sent_requests (fst (getMarketAnalysis_lenient (sample_env (Some ''undefined'') refuse) ''baker''))
     = [\<lparr>apiKey = ''undefined'', subject = ''baker''\<rparr>]
   \<and> snd (getMarketAnalysis_lenient (sample_env (Some ''undefined'') refuse) ''baker'')
     = Inl (Rejection (Some ''API key not valid. Please pass a valid API key.''))"
  by code_simp

section \<open>Duplicate terms after the re-scan\<close>

text \<open>
  Claim C10. The re-scan does not look at the terms already accepted. On the one-row
  reply the structured tier accepts the row; the re-scan, run because one is fewer than
  five, reads the same line in the whole text and appends a second record with the same
  term, trend \<open>Stable\<close> and a drawn volume. Both are in the report.
\<close>

theorem rescan_duplicates_term:
  "getMarketAnalysis_table (sample_env (Some ''secret-key'') (reply one_row_reply)) ''baker'' =
     ([\<lparr>apiKey = ''secret-key'', subject = ''baker''\<rparr>],
      Inr \<lparr>profession = ''baker'', summary = ''Bread is rising.'',
            topKeywords =
              [\<lparr>keyword = ''Sourdough'', volume = 45000, trend = Up,
                 changePercentage = Finite 25, relevanceScore = 100\<rparr>,
               \<lparr>keyword = ''Sourdough'', volume = 6000, trend = Stable,
                 changePercentage = Finite 0, relevanceScore = 50\<rparr>],
            sources = [], generatedAt = ''11/2/2026, 10:00:00 AM''\<rparr>)"
  by code_simp

end
